theory Spec2Isabelle
  imports Complex_Main "HOL-Library.Countable" "HOL-Library.Sublist"
begin

section \<open>Conventions of the embedding\<close>

text \<open>
  The valuation engine of \<^verbatim>\<open>src/valuation.py\<close>, the cache wrapper of
  \<^verbatim>\<open>src/cache.py\<close> and the search parameters of \<^verbatim>\<open>src/search.py\<close> are
  embedded as HOL functions.

  \<^item> Python floats and ints are exact rationals (\<^typ>\<open>rat\<close>, \<^typ>\<open>int\<close>): no rounding
    error, no overflow, no infinities. The one place where the code tests for NaN, the
    result of \<^verbatim>\<open>griddata\<close>, has NaN as a value of its own.
  \<^item> A raised exception is the left summand of \<open>exn + 'a\<close>. \<^verbatim>\<open>except ValueError\<close>
    catches the constructor \<open>ValueError\<close> only; \<^verbatim>\<open>except Exception\<close> catches every
    \<open>exn\<close>.
  \<^item> Library functions that are not part of the repository (\<^verbatim>\<open>scipy\<close>'s
    \<^verbatim>\<open>griddata\<close>, \<^verbatim>\<open>json.dumps\<close>, \<^verbatim>\<open>json.loads\<close>, the formatting of numbers
    into strings, the search callable) are parameters of the functions that call them.
  \<^item> Calls to the logger are left out: they append to a log and no value of the
    engine depends on them. The warnings of the loop over the purchase listings are the
    exception: \<open>valuation_loop_logged\<close> returns them beside the result of the loop.
  \<^item> Names are the source's. A leading underscore is dropped (\<open>get_valuation\<close>,
    \<open>convert_payload_to_valuations\<close>, \<open>url_property_for_sale\<close>); the attribute
    \<^verbatim>\<open>values\<close> of the engine is \<open>values_of\<close>; the attribute
    \<^verbatim>\<open>purchase_category\<close> is \<open>purchase_category\<close> on a listing,
    \<open>sp_purchase_category\<close> on the search parameters and \<open>url_purchase_category\<close> on
    a URL; a method of a class is prefixed by the class where the name alone would be
    ambiguous (\<open>Cache_get\<close>, \<open>Cache_set\<close>, \<open>URL_value\<close>).
\<close>

datatype exn =
    ValueError string
  | TypeError string
  | KeyError string
  | ZeroDivisionError
  | QhullError
  | ConnectionError

fun isValueError :: "exn \<Rightarrow> bool" where
  "isValueError (ValueError m) = True"
| "isValueError e = False"

section \<open>Data model (\<^verbatim>\<open>src/search.py\<close>, \<^verbatim>\<open>src/valuation.py\<close>)\<close>

datatype PurchaseCategory = BUY | RENT

text \<open>
  Python objects carry no field types: the listings that the search engine builds hold
  strings and numbers, the ones rebuilt from a cached payload hold whatever JSON value was
  stored. The records are therefore polymorphic in the type \<open>'s\<close> of their textual fields
  and the type \<open>'n\<close> of their numeric fields.
\<close>

record 'n GeoLocation =
  latitude :: 'n
  longitude :: 'n

record ('s, 'n) Property =
  "identifier" :: 's
  display_address :: 's
  price :: 'n
  geo_location :: "'n GeoLocation"
  purchase_category :: PurchaseCategory
  image_url :: 's

record ('s, 'n) Valuation =
  property :: "('s, 'n) Property"
  estimated_rental_income :: 'n
  return_on_investment :: 'n

record ValuationParameters =
  min_deposit :: int
  max_deposit :: int
  mortgage_length :: int
  mortgage_interest_rate :: rat
  investment_increase :: int
  investment_deduction :: int
  rent_increase :: int
  rent_deduction :: int

type_synonym listing = "(string, rat) Property"
type_synonym scored = "(string, rat) Valuation"

section \<open>Outlier filter (\<^verbatim>\<open>remove_outliers\<close>)\<close>

text \<open>
  \<^verbatim>\<open>np.percentile(data, q)\<close> with its default linear method: on the sorted data
  \<open>a\<close> of length \<open>n\<close> the virtual index is \<open>q / 100 * (n - 1)\<close>, and the result
  interpolates linearly between the two neighbours of that index. Only \<open>q = 25\<close> and
  \<open>q = 75\<close> are used, and for a percentage between 0 and 100 both neighbours are elements
  of the data. An empty array has no percentile (NaN), here \<open>None\<close>; the engine never
  passes one.
\<close>

definition percentile :: "rat list \<Rightarrow> rat \<Rightarrow> rat option" where
  "percentile data q =
     (if data = [] then None
      else
        let a = sort data;
            n = length a;
            idx = q / 100 * of_nat (n - 1);
            lo = nat \<lfloor>idx\<rfloor>;
            hi = min (lo + 1) (n - 1);
            gamma = idx - of_nat lo
        in Some (a ! lo + (a ! hi - a ! lo) * gamma))"

text \<open>
  The list comprehension keeps the values \<open>x\<close> with \<open>lower_bound <= x <= upper_bound\<close>,
  in the order of the input. A comparison with NaN is false, so nothing is kept when the
  quartiles are NaN.
\<close>

definition remove_outliers :: "rat list \<Rightarrow> rat \<Rightarrow> rat list" where
  "remove_outliers data threshold =
     (case (percentile data 25, percentile data 75) of
        (Some q1, Some q3) \<Rightarrow>
          let iqr = q3 - q1;
              lower_bound = q1 - (iqr * threshold);
              upper_bound = q3 + (iqr * threshold)
          in [x \<leftarrow> data. lower_bound \<le> x \<and> x \<le> upper_bound]
      | _ \<Rightarrow> [])"

text \<open>The default \<^verbatim>\<open>threshold=1.5\<close>.\<close>

definition remove_outliers_default :: "rat list \<Rightarrow> rat list" where
  "remove_outliers_default data = remove_outliers data (3 / 2)"

section \<open>Rent estimator (\<^verbatim>\<open>get_height\<close>)\<close>

text \<open>
  The attributes \<^verbatim>\<open>self.points\<close>, \<^verbatim>\<open>self.values\<close> and
  \<^verbatim>\<open>self.average_price\<close> that \<^verbatim>\<open>_get_valuation\<close> assigns and
  \<^verbatim>\<open>get_height\<close> reads.
\<close>

record engine =
  points :: "(rat \<times> rat) list"
  values_of :: "rat list"
  average_price :: rat

text \<open>
  What a call of \<^verbatim>\<open>griddata(points, values, (x, y), method='linear')\<close> returns: a
  number, or NaN (the fill value outside the convex hull of the points). The call may also
  raise. \<^verbatim>\<open>scipy\<close> is not part of the repository, so the function is a parameter.
\<close>

datatype grid_value = Interp rat | NaN

type_synonym griddata = "(rat \<times> rat) list \<Rightarrow> rat list \<Rightarrow> rat \<times> rat \<Rightarrow> exn + grid_value"

definition get_height :: "griddata \<Rightarrow> engine \<Rightarrow> rat \<Rightarrow> rat \<Rightarrow> exn + rat" where
  "get_height gd self x y =
     (case gd (points self) (values_of self) (x, y) of
        Inl e \<Rightarrow> if isValueError e then Inr (average_price self) else Inl e
      | Inr NaN \<Rightarrow> Inr (average_price self)
      | Inr (Interp v) \<Rightarrow> Inr v)"

text \<open>
  What \<^verbatim>\<open>scipy\<close> documents of \<^verbatim>\<open>griddata\<close> with \<^verbatim>\<open>method='linear'\<close> on a
  degenerate sample: the points are triangulated by Qhull, and Qhull raises
  \<^verbatim>\<open>scipy.spatial.QhullError\<close>, a subclass of \<^verbatim>\<open>RuntimeError\<close> and not of
  \<^verbatim>\<open>ValueError\<close>, when all the points lie on one line (the initial simplex is flat).
  The rest of the interpolation stays a parameter.
\<close>

definition collinear :: "(rat \<times> rat) list \<Rightarrow> bool" where
  "collinear pts =
     list_all (\<lambda>p. list_all (\<lambda>q. list_all (\<lambda>r.
       (fst q - fst p) * (snd r - snd p) = (snd q - snd p) * (fst r - fst p)) pts) pts) pts"

definition qhull_griddata :: "griddata \<Rightarrow> griddata" where
  "qhull_griddata interpolate pts vals q =
     (if collinear pts then Inl QhullError else interpolate pts vals q)"

section \<open>Investment score (\<^verbatim>\<open>get_score\<close>)\<close>

text \<open>
  \<^verbatim>\<open>math.pow(x, n)\<close> for an integer exponent: a zero base with a negative exponent
  is a \<^verbatim>\<open>ValueError\<close> (math domain error). The \<^verbatim>\<open>OverflowError\<close> of a result
  beyond the range of a float is outside the model.
\<close>

definition math_pow :: "rat \<Rightarrow> int \<Rightarrow> exn + rat" where
  "math_pow x n =
     (if 0 \<le> n then Inr (x ^ nat n)
      else if x = 0 then Inl (ValueError ''math domain error'')
      else Inr (1 / x ^ nat (- n)))"

text \<open>\<^verbatim>\<open>round(x, 2)\<close>: to the nearest hundredth, a tie to the even one.\<close>

definition round_half_even :: "rat \<Rightarrow> int" where
  "round_half_even y =
     (let f = \<lfloor>y\<rfloor>; d = y - of_int f
      in if d < 1 / 2 then f
         else if 1 / 2 < d then f + 1
         else if even f then f else f + 1)"

definition round2 :: "rat \<Rightarrow> rat" where
  "round2 x = of_int (round_half_even (x * 100)) / 100"

text \<open>
  The level monthly payment, as far as it is computed before the cost check. Over the
  rationals \<open>1 + r\<close> differs from 1 for every rate but 0 and a power never overflows;
  in floating point a rate below the resolution of \<open>1 + r\<close> gives a
  \<^verbatim>\<open>ZeroDivisionError\<close> and a very large rate and term an \<^verbatim>\<open>OverflowError\<close>.
  Statements about the payment for all parameters are therefore made for rates from 0.001
  to 100 percent and terms from 1 to 100 years, where neither happens.
\<close>

definition monthly_mortgage :: "rat \<Rightarrow> ValuationParameters \<Rightarrow> exn + rat" where
  "monthly_mortgage property_price valuation_params =
     (let deposit = of_int (max_deposit valuation_params);
          mortgage_percentage = mortgage_interest_rate valuation_params;
          r = mortgage_percentage / (12 * 100);
          n = mortgage_length valuation_params * 12;
          p = max (property_price - deposit) 0
      in if r = 0 then Inl (ValueError ''Mortgage percentage cannot be zero'')
         else case math_pow (1 + r) n of
                Inl e \<Rightarrow> Inl e
              | Inr pw \<Rightarrow>
                  if pw - 1 = 0 then Inl ZeroDivisionError
                  else Inr (p * r * pw / (pw - 1)))"

definition net_annual_income :: "rat \<Rightarrow> rat \<Rightarrow> ValuationParameters \<Rightarrow> exn + rat" where
  "net_annual_income rent_price property_price valuation_params =
     (let net_rent_increase =
            of_int (rent_increase valuation_params - rent_deduction valuation_params)
      in case monthly_mortgage property_price valuation_params of
           Inl e \<Rightarrow> Inl e
         | Inr mm \<Rightarrow> Inr ((rent_price + net_rent_increase - mm) * 12))"

definition get_score :: "griddata \<Rightarrow> engine \<Rightarrow> listing \<Rightarrow> ValuationParameters \<Rightarrow> exn + rat" where
  "get_score gd self prop valuation_params =
     (case get_height gd self (longitude (geo_location prop)) (latitude (geo_location prop)) of
        Inl e \<Rightarrow> Inl e
      | Inr rent_price \<Rightarrow>
          let deposit = max_deposit valuation_params;
              net_investment_increase =
                investment_increase valuation_params - investment_deduction valuation_params
          in case net_annual_income rent_price (price prop) valuation_params of
               Inl e \<Rightarrow> Inl e
             | Inr income \<Rightarrow>
                 let cost = deposit + net_investment_increase
                 in if cost = 0 then Inl (ValueError ''Cost cannot be zero'')
                    else Inr (round2 (100 * income / of_int cost)))"

section \<open>The compute path (\<^verbatim>\<open>_get_valuation\<close>)\<close>

text \<open>\<^verbatim>\<open>min\<close> and \<^verbatim>\<open>max\<close> of a sequence raise \<^verbatim>\<open>ValueError\<close> on an empty one.\<close>

definition py_min :: "rat list \<Rightarrow> exn + rat" where
  "py_min xs =
     (case xs of
        [] \<Rightarrow> Inl (ValueError ''min() arg is an empty sequence'')
      | x # rest \<Rightarrow> Inr (fold min rest x))"

definition py_max :: "rat list \<Rightarrow> exn + rat" where
  "py_max xs =
     (case xs of
        [] \<Rightarrow> Inl (ValueError ''max() arg is an empty sequence'')
      | x # rest \<Rightarrow> Inr (fold max rest x))"

text \<open>
  Lines 125 to 134: the sample points with the four corners of their bounding box appended,
  the sample prices with four copies of their mean appended.
\<close>

definition fit :: "listing list \<Rightarrow> exn + engine" where
  "fit rent_properties =
     (let pts = map (\<lambda>p. (longitude (geo_location p), latitude (geo_location p))) rent_properties;
          lons = map (\<lambda>p. longitude (geo_location p)) rent_properties;
          lats = map (\<lambda>p. latitude (geo_location p)) rent_properties;
          vals = map price rent_properties
      in case py_min lons of Inl e \<Rightarrow> Inl e | Inr min_lon \<Rightarrow>
         case py_max lons of Inl e \<Rightarrow> Inl e | Inr max_lon \<Rightarrow>
         case py_min lats of Inl e \<Rightarrow> Inl e | Inr min_lat \<Rightarrow>
         case py_max lats of Inl e \<Rightarrow> Inl e | Inr max_lat \<Rightarrow>
         if length vals = 0 then Inl ZeroDivisionError
         else
           let avg = sum_list vals / of_nat (length vals)
           in Inr \<lparr>points = pts @ [(min_lon, min_lat), (max_lon, min_lat),
                                   (min_lon, max_lat), (max_lon, max_lat)],
                    values_of = vals @ [avg, avg, avg, avg],
                    average_price = avg\<rparr>)"

text \<open>
  The body of the \<^verbatim>\<open>try\<close> in the loop: the arguments of the \<^verbatim>\<open>Valuation\<close> are
  evaluated in order, the estimate before the score.
\<close>

definition make_valuation :: "griddata \<Rightarrow> engine \<Rightarrow> listing \<Rightarrow> ValuationParameters \<Rightarrow> exn + scored" where
  "make_valuation gd self prop valuation_params =
     (case get_height gd self (longitude (geo_location prop)) (latitude (geo_location prop)) of
        Inl e \<Rightarrow> Inl e
      | Inr h \<Rightarrow>
          (case get_score gd self prop valuation_params of
             Inl e \<Rightarrow> Inl e
           | Inr s \<Rightarrow> Inr \<lparr>property = prop, estimated_rental_income = h,
                           return_on_investment = s\<rparr>))"

text \<open>
  The loop over the purchase listings, with the list \<^verbatim>\<open>valuations\<close> as accumulator.
  A \<^verbatim>\<open>ValueError\<close> skips the listing; any other exception leaves the loop.
\<close>

fun valuation_loop ::
  "griddata \<Rightarrow> engine \<Rightarrow> ValuationParameters \<Rightarrow> listing list \<Rightarrow> scored list \<Rightarrow> exn + scored list" where
  "valuation_loop gd self vp [] valuations = Inr valuations"
| "valuation_loop gd self vp (prop # rest) valuations =
     (case make_valuation gd self prop vp of
        Inr v \<Rightarrow> valuation_loop gd self vp rest (valuations @ [v])
      | Inl e \<Rightarrow>
          if isValueError e then valuation_loop gd self vp rest valuations
          else Inl e)"



text \<open>\<^verbatim>\<open>sorted(xs, key=f)\<close>: ascending in the key, and stable.\<close>

definition sorted_py :: "('a \<Rightarrow> rat) \<Rightarrow> 'a list \<Rightarrow> 'a list" where
  "sorted_py key xs = sort_key key xs"

definition get_valuation ::
  "griddata \<Rightarrow> listing list \<Rightarrow> listing list \<Rightarrow> ValuationParameters \<Rightarrow> exn + scored list" where
  "get_valuation gd rent_properties buy_properties valuation_params =
     (if length rent_properties = 0 \<or> length buy_properties = 0 then Inr []
      else
        let rent_prices = map price rent_properties;
            filtered_rent_prices = remove_outliers_default rent_prices;
            rent_properties' = [p \<leftarrow> rent_properties. price p \<in> set filtered_rent_prices]
        in case fit rent_properties' of
             Inl e \<Rightarrow> Inl e
           | Inr self \<Rightarrow>
               (case valuation_loop gd self valuation_params buy_properties [] of
                  Inl e \<Rightarrow> Inl e
                | Inr valuations \<Rightarrow>
                    Inr (sorted_py (\<lambda>valuation. - return_on_investment valuation) valuations)))"

section \<open>Search parameters (\<^verbatim>\<open>src/search.py\<close>)\<close>

datatype PropertyType =
  FLAT | DETACHED | SEMI_DETACHED | TERRACE | BUNGALOW | PARK_HOME | LAND | STUDENT_HALLS

datatype MustHave =
  MH_AUCTION | MH_GARDEN | MH_PARKING | MH_NEW_HOME | MH_RETIREMENT | MH_SHARED_OWNERSHIP

datatype DontShow = DS_NEW_HOME | DS_RETIREMENT | DS_SHARED_OWNERSHIP

datatype FurnishType = FURNISHED | PART_FURNISHED | UNFURNISHED

fun PropertyType_value :: "PropertyType \<Rightarrow> string" where
  "PropertyType_value FLAT = ''flat''"
| "PropertyType_value DETACHED = ''detached''"
| "PropertyType_value SEMI_DETACHED = ''semi-detached''"
| "PropertyType_value TERRACE = ''terraced''"
| "PropertyType_value BUNGALOW = ''bungalow''"
| "PropertyType_value PARK_HOME = ''park-home''"
| "PropertyType_value LAND = ''land''"
| "PropertyType_value STUDENT_HALLS = ''private-halls''"

fun MustHave_value :: "MustHave \<Rightarrow> string" where
  "MustHave_value MH_AUCTION = ''auction''"
| "MustHave_value MH_GARDEN = ''garden''"
| "MustHave_value MH_PARKING = ''parking''"
| "MustHave_value MH_NEW_HOME = ''newHome''"
| "MustHave_value MH_RETIREMENT = ''retirement''"
| "MustHave_value MH_SHARED_OWNERSHIP = ''sharedOwnership''"

fun DontShow_value :: "DontShow \<Rightarrow> string" where
  "DontShow_value DS_NEW_HOME = ''newHome''"
| "DontShow_value DS_RETIREMENT = ''retirement''"
| "DontShow_value DS_SHARED_OWNERSHIP = ''sharedOwnership''"

fun FurnishType_value :: "FurnishType \<Rightarrow> string" where
  "FurnishType_value FURNISHED = ''furnished''"
| "FurnishType_value PART_FURNISHED = ''partFurnished''"
| "FurnishType_value UNFURNISHED = ''unfurnished''"

fun PurchaseCategory_value :: "PurchaseCategory \<Rightarrow> string" where
  "PurchaseCategory_value BUY = ''buy''"
| "PurchaseCategory_value RENT = ''rent''"

text \<open>
  The attributes of a \<^verbatim>\<open>SearchParameters\<close> object. A bound that the constructor
  replaces by the empty string is \<open>None\<close>. The object is shared between the caller and
  the engine, so a method that assigns an attribute returns the updated record.
\<close>

record SearchParameters =
  location_name :: string
  location_id :: string
  radius :: rat
  min_price :: "int option"
  max_price :: "int option"
  min_bedrooms :: "int option"
  max_bedrooms :: "int option"
  max_days_since_added :: "int option"
  property_types :: "PropertyType list"
  must_have :: "MustHave list"
  dont_show :: "DontShow list"
  furnish_types :: "FurnishType list"
  sp_purchase_category :: PurchaseCategory

record URL =
  url :: string
  url_purchase_category :: PurchaseCategory

definition to_buy :: "SearchParameters \<Rightarrow> SearchParameters" where
  "to_buy self = self\<lparr>sp_purchase_category := BUY\<rparr>"

definition to_rent :: "SearchParameters \<Rightarrow> SearchParameters" where
  "to_rent self = self\<lparr>sp_purchase_category := RENT\<rparr>"

text \<open>
  The formatting of a number inside an f-string is a parameter \<open>fmt\<close>; \<open>join\<close> is
  \<^verbatim>\<open>','.join\<close>.
\<close>

fun join :: "string list \<Rightarrow> string" where
  "join [] = ''''"
| "join [x] = x"
| "join (x # y # rest) = x @ '','' @ join (y # rest)"

definition fmt_opt :: "(rat \<Rightarrow> string) \<Rightarrow> int option \<Rightarrow> string" where
  "fmt_opt fmt v = (case v of None \<Rightarrow> '''' | Some i \<Rightarrow> fmt (of_int i))"

definition url_property_for_sale :: "(rat \<Rightarrow> string) \<Rightarrow> SearchParameters \<Rightarrow> URL" where
  "url_property_for_sale fmt self =
     \<lparr>url = ''https://www.rightmove.co.uk/property-for-sale/find.html?''
          @ ''locationIdentifier='' @ location_id self @ ''&''
          @ ''radius='' @ fmt (radius self) @ ''&''
          @ ''minPrice='' @ fmt_opt fmt (min_price self) @ ''&''
          @ ''maxPrice='' @ fmt_opt fmt (max_price self) @ ''&''
          @ ''minBedrooms='' @ fmt_opt fmt (min_bedrooms self) @ ''&''
          @ ''maxBedrooms='' @ fmt_opt fmt (max_bedrooms self) @ ''&''
          @ ''maxDaysSinceAdded='' @ fmt_opt fmt (max_days_since_added self) @ ''&''
          @ ''propertyTypes='' @ join (map PropertyType_value (property_types self)) @ ''&''
          @ ''mustHave='' @ join (map MustHave_value (must_have self)) @ ''&''
          @ ''dontShow='' @ join (map DontShow_value (dont_show self)) @ ''&''
          @ ''includeSSTC=false'',
      url_purchase_category = BUY\<rparr>"

definition url_property_to_rent :: "(rat \<Rightarrow> string) \<Rightarrow> SearchParameters \<Rightarrow> URL" where
  "url_property_to_rent fmt self =
     \<lparr>url = ''https://www.rightmove.co.uk/property-to-rent/find.html?''
          @ ''locationIdentifier='' @ location_id self @ ''&''
          @ ''radius='' @ fmt (radius self) @ ''&''
          @ ''minBedrooms='' @ fmt_opt fmt (min_bedrooms self) @ ''&''
          @ ''maxBedrooms='' @ fmt_opt fmt (max_bedrooms self) @ ''&''
          @ ''maxDaysSinceAdded='' @ fmt_opt fmt (max_days_since_added self) @ ''&''
          @ ''propertyTypes='' @ join (map PropertyType_value (property_types self)) @ ''&''
          @ ''mustHave='' @ join (map MustHave_value (must_have self)) @ ''&''
          @ ''dontShow='' @ join (map DontShow_value (dont_show self)) @ ''&''
          @ ''furnishTypes='' @ join (map FurnishType_value (furnish_types self)) @ ''&''
          @ ''includeLetAgreed=true'',
      url_purchase_category = RENT\<rparr>"

text \<open>
  \<^verbatim>\<open>to_url\<close>: the final \<^verbatim>\<open>else\<close> that raises is not reachable for a member of the
  enumeration.
\<close>

definition to_url :: "(rat \<Rightarrow> string) \<Rightarrow> SearchParameters \<Rightarrow> URL" where
  "to_url fmt self =
     (case sp_purchase_category self of
        BUY \<Rightarrow> url_property_for_sale fmt self
      | RENT \<Rightarrow> url_property_to_rent fmt self)"

text \<open>\<^verbatim>\<open>URL.value()\<close> without arguments.\<close>

definition URL_value :: "URL \<Rightarrow> string" where
  "URL_value self = url self"

text \<open>\<^verbatim>\<open>ValuationParameters.__repr__\<close>.\<close>

definition ValuationParameters_repr :: "(rat \<Rightarrow> string) \<Rightarrow> ValuationParameters \<Rightarrow> string" where
  "ValuationParameters_repr fmt self =
     ''ValuationParameters(''
       @ ''min_deposit='' @ fmt (of_int (min_deposit self)) @ '', ''
       @ ''max_deposit='' @ fmt (of_int (max_deposit self)) @ '', ''
       @ ''mortgage_length='' @ fmt (of_int (mortgage_length self)) @ '', ''
       @ ''mortgage_interest_rate='' @ fmt (mortgage_interest_rate self) @ '', ''
       @ ''investment_increase='' @ fmt (of_int (investment_increase self)) @ '', ''
       @ ''investment_deduction='' @ fmt (of_int (investment_deduction self)) @ '', ''
       @ ''rent_increase='' @ fmt (of_int (rent_increase self)) @ '', ''
       @ ''rent_deduction='' @ fmt (of_int (rent_deduction self))
       @ '')''"

section \<open>Cached payloads (\<^verbatim>\<open>src/cache.py\<close> and the two converters)\<close>

text \<open>
  The Python values that \<^verbatim>\<open>json.loads\<close> can return. A dictionary is the list of its
  items; a key is looked up with \<^const>\<open>map_of\<close>.
\<close>

datatype pyval =
    PNone
  | PBool bool
  | PNum rat
  | PStr string
  | PList "pyval list"
  | PDict "(string \<times> pyval) list"

instance pyval :: countable
  by countable_datatype

type_synonym cached = "(pyval, pyval) Valuation"

text \<open>
  \<^verbatim>\<open>json.dumps\<close> and \<^verbatim>\<open>json.loads\<close> are parameters \<open>dumps\<close> and \<open>loads\<close> on
  text. \<^verbatim>\<open>json.loads\<close> of a value that is not text is a \<^verbatim>\<open>TypeError\<close>.
\<close>

type_synonym json_dumps = "pyval \<Rightarrow> string"
type_synonym json_loads = "string \<Rightarrow> exn + pyval"

definition json_loads_py :: "json_loads \<Rightarrow> pyval \<Rightarrow> exn + pyval" where
  "json_loads_py loads v =
     (case v of
        PStr s \<Rightarrow> loads s
      | _ \<Rightarrow> Inl (TypeError ''the JSON object must be str, bytes or bytearray''))"

text \<open>
  The redis client behind \<^verbatim>\<open>Cache\<close>: the stored texts with their expiry in seconds,
  and for each of the two client calls whether it fails and with what. The passing of time
  is not modelled: an entry stays until it is overwritten.
\<close>

record redis =
  store :: "string \<rightharpoonup> string \<times> nat"
  get_fault :: "exn option"
  set_fault :: "exn option"

definition Cache_get :: "json_loads \<Rightarrow> redis \<Rightarrow> string \<Rightarrow> exn + pyval" where
  "Cache_get loads self key =
     (case get_fault self of
        Some e \<Rightarrow> Inl e
      | None \<Rightarrow>
          (case store self key of
             None \<Rightarrow> Inr PNone
           | Some (result, expiry) \<Rightarrow> loads result))"

definition Cache_set :: "redis \<Rightarrow> string \<Rightarrow> string \<Rightarrow> nat \<Rightarrow> exn + redis" where
  "Cache_set self key v expiry =
     (case set_fault self of
        Some e \<Rightarrow> Inl e
      | None \<Rightarrow> Inr (self\<lparr>store := (store self)(key \<mapsto> (v, expiry))\<rparr>))"

text \<open>
  \<^verbatim>\<open>k in v\<close> for a text \<open>k\<close>: a key of a dictionary, an element of a list, a
  substring of a text; a \<^verbatim>\<open>TypeError\<close> for a value that is not a container.
\<close>

definition py_in :: "string \<Rightarrow> pyval \<Rightarrow> exn + bool" where
  "py_in k v =
     (case v of
        PDict d \<Rightarrow> Inr (k \<in> fst ` set d)
      | PList xs \<Rightarrow> Inr (PStr k \<in> set xs)
      | PStr s \<Rightarrow> Inr (sublist k s)
      | _ \<Rightarrow> Inl (TypeError ''argument is not iterable''))"

text \<open>\<^verbatim>\<open>v[k]\<close> for a text \<open>k\<close>.\<close>

definition py_getitem :: "pyval \<Rightarrow> string \<Rightarrow> exn + pyval" where
  "py_getitem v k =
     (case v of
        PDict d \<Rightarrow> (case map_of d k of None \<Rightarrow> Inl (KeyError k) | Some x \<Rightarrow> Inr x)
      | _ \<Rightarrow> Inl (TypeError ''indices must be integers''))"

text \<open>\<^verbatim>\<open>PurchaseCategory(v)\<close>: the member with that value, or a \<^verbatim>\<open>ValueError\<close>.\<close>

definition PurchaseCategory_of :: "pyval \<Rightarrow> exn + PurchaseCategory" where
  "PurchaseCategory_of v =
     (if v = PStr ''buy'' then Inr BUY
      else if v = PStr ''rent'' then Inr RENT
      else Inl (ValueError ''not a valid PurchaseCategory''))"

text \<open>
  The body of the loop of \<^verbatim>\<open>_convert_payload_to_valuations\<close>, for one object. Every
  subscript \<^verbatim>\<open>obj[k]\<close> comes after the test that \<open>k\<close> is a key of the object, so the
  key is found.
\<close>

definition valuation_of_obj :: "pyval \<Rightarrow> exn + cached" where
  "valuation_of_obj obj =
     (case obj of
        PDict d \<Rightarrow>
          if ''identifier'' \<notin> fst ` set d
            then Inl (ValueError ''property object is missing identifier key'')
          else if ''display_address'' \<notin> fst ` set d
            then Inl (ValueError ''property object is missing display_address key'')
          else if ''price'' \<notin> fst ` set d
            then Inl (ValueError ''property object is missing price key'')
          else if ''geo_location'' \<notin> fst ` set d
            then Inl (ValueError ''property object is missing geo_location key'')
          else
            (case py_in ''latitude'' (the (map_of d ''geo_location'')) of
               Inl e \<Rightarrow> Inl e
             | Inr False \<Rightarrow> Inl (ValueError ''geo_location object is missing latitude key'')
             | Inr True \<Rightarrow>
            (case py_in ''longitude'' (the (map_of d ''geo_location'')) of
               Inl e \<Rightarrow> Inl e
             | Inr False \<Rightarrow> Inl (ValueError ''geo_location object is missing longitude key'')
             | Inr True \<Rightarrow>
            if ''purchase_category'' \<notin> fst ` set d
              then Inl (ValueError ''property object is missing purchase_category key'')
            else if ''estimated_rental_income'' \<notin> fst ` set d
              then Inl (ValueError ''property object is missing estimated_rental_income key'')
            else if ''return_on_investment'' \<notin> fst ` set d
              then Inl (ValueError ''property object is missing return_on_investment key'')
            else if ''image_url'' \<notin> fst ` set d
              then Inl (ValueError ''property object is missing image_url key'')
            else
              (case py_getitem (the (map_of d ''geo_location'')) ''latitude'' of
                 Inl e \<Rightarrow> Inl e
               | Inr lat \<Rightarrow>
              (case py_getitem (the (map_of d ''geo_location'')) ''longitude'' of
                 Inl e \<Rightarrow> Inl e
               | Inr lon \<Rightarrow>
              (case PurchaseCategory_of (the (map_of d ''purchase_category'')) of
                 Inl e \<Rightarrow> Inl e
               | Inr category \<Rightarrow>
                   Inr \<lparr>property =
                          \<lparr>identifier = the (map_of d ''identifier''),
                           display_address = the (map_of d ''display_address''),
                           price = the (map_of d ''price''),
                           geo_location = \<lparr>latitude = lat, longitude = lon\<rparr>,
                           purchase_category = category,
                           image_url = the (map_of d ''image_url'')\<rparr>,
                        estimated_rental_income = the (map_of d ''estimated_rental_income''),
                        return_on_investment = the (map_of d ''return_on_investment'')\<rparr>)))))
      | _ \<Rightarrow> Inl (ValueError ''Property object to be a dictionary''))"

text \<open>The eight keys that the body tests on the object itself.\<close>

definition mandatory_keys :: "string set" where
  "mandatory_keys = {''identifier'', ''display_address'', ''price'', ''geo_location'',
     ''purchase_category'', ''estimated_rental_income'', ''return_on_investment'', ''image_url''}"

text \<open>The loop: the first object that raises ends it.\<close>

fun valuations_of_objs :: "pyval list \<Rightarrow> exn + cached list" where
  "valuations_of_objs [] = Inr []"
| "valuations_of_objs (obj # rest) =
     (case valuation_of_obj obj of
        Inl e \<Rightarrow> Inl e
      | Inr v \<Rightarrow>
          (case valuations_of_objs rest of
             Inl e \<Rightarrow> Inl e
           | Inr vs \<Rightarrow> Inr (v # vs)))"

definition convert_payload_to_valuations :: "json_loads \<Rightarrow> pyval \<Rightarrow> exn + cached list" where
  "convert_payload_to_valuations loads payload =
     (case json_loads_py loads payload of
        Inl e \<Rightarrow> Inl e
      | Inr (PList objs) \<Rightarrow> valuations_of_objs objs
      | Inr _ \<Rightarrow> Inl (ValueError ''Expected a list of property objects''))"

definition obj_of_valuation :: "cached \<Rightarrow> pyval" where
  "obj_of_valuation valuation =
     PDict [
       (''identifier'', identifier (property valuation)),
       (''display_address'', display_address (property valuation)),
       (''price'', price (property valuation)),
       (''geo_location'', PDict [
          (''latitude'', latitude (geo_location (property valuation))),
          (''longitude'', longitude (geo_location (property valuation)))]),
       (''purchase_category'',
          PStr (PurchaseCategory_value (purchase_category (property valuation)))),
       (''estimated_rental_income'', estimated_rental_income valuation),
       (''return_on_investment'', return_on_investment valuation),
       (''image_url'', image_url (property valuation))]"

definition convert_valuations_to_payload :: "json_dumps \<Rightarrow> cached list \<Rightarrow> string" where
  "convert_valuations_to_payload dumps valuations = dumps (PList (map obj_of_valuation valuations))"

text \<open>A valuation of the compute path as the Python object it is: texts and numbers.\<close>

definition as_object :: "scored \<Rightarrow> cached" where
  "as_object v =
     \<lparr>property =
        \<lparr>identifier = PStr (identifier (property v)),
         display_address = PStr (display_address (property v)),
         price = PNum (price (property v)),
         geo_location =
           \<lparr>latitude = PNum (latitude (geo_location (property v))),
            longitude = PNum (longitude (geo_location (property v)))\<rparr>,
         purchase_category = purchase_category (property v),
         image_url = PStr (image_url (property v))\<rparr>,
      estimated_rental_income = PNum (estimated_rental_income v),
      return_on_investment = PNum (return_on_investment v)\<rparr>"

section \<open>The orchestrator (\<^verbatim>\<open>rank_properties\<close>)\<close>

text \<open>
  The functions of libraries that the engine calls, and the search callable. The callable
  receives the shared parameters object and the cache client; it may raise, and it may
  write to the cache, as \<^verbatim>\<open>SearchEngine.find_properties\<close> does. It does not assign the
  attributes of the parameters object.
\<close>

record library =
  dumps :: json_dumps
  loads :: json_loads
  griddata_fn :: griddata
  fmt_number :: "rat \<Rightarrow> string"

type_synonym find_properties = "SearchParameters \<Rightarrow> redis \<Rightarrow> (exn + listing list) \<times> redis"

text \<open>The cache key of lines 85 and 86, for parameters already switched to \<open>BUY\<close>.\<close>

definition cache_key :: "library \<Rightarrow> SearchParameters \<Rightarrow> ValuationParameters \<Rightarrow> string" where
  "cache_key lib params valuation_params =
     ''valuation:'' @ URL_value (to_url (fmt_number lib) params) @ ''-''
       @ ValuationParameters_repr (fmt_number lib) valuation_params"

text \<open>
  The first \<^verbatim>\<open>try\<close> of \<^verbatim>\<open>rank_properties\<close>: \<open>Some\<close> of the cached list when the
  function returns from inside it, \<open>None\<close> when control reaches the code after it, be it
  because nothing was stored, because the read raised or because the conversion raised
  (\<^verbatim>\<open>except Exception\<close> catches all three alike).
\<close>

definition load_from_cache :: "library \<Rightarrow> redis \<Rightarrow> string \<Rightarrow> cached list option" where
  "load_from_cache lib cache key =
     (case Cache_get (loads lib) cache key of
        Inl e \<Rightarrow> None
      | Inr payload \<Rightarrow>
          if payload \<noteq> PNone then
            (case convert_payload_to_valuations (loads lib) payload of
               Inl e \<Rightarrow> None
             | Inr valuations \<Rightarrow> Some valuations)
          else None)"

text \<open>
  The second \<^verbatim>\<open>try\<close>: the cache after the attempt to save. An exception of the write
  is caught and the cache is as it was.
\<close>

definition save_to_cache :: "library \<Rightarrow> redis \<Rightarrow> string \<Rightarrow> cached list \<Rightarrow> redis" where
  "save_to_cache lib cache key valuations =
     (let payload = convert_valuations_to_payload (dumps lib) valuations
      in case Cache_set cache key (dumps lib (PStr payload)) (30 * 60) of
           Inl e \<Rightarrow> cache
         | Inr cache' \<Rightarrow> cache')"

text \<open>
  Lines 100 to 114: the two searches, the valuation, the attempt to save. The result is
  the returned list or the exception that left the function, with the parameters object
  and the cache as they are then.
\<close>

definition create_valuations ::
  "library \<Rightarrow> find_properties \<Rightarrow> string \<Rightarrow> SearchParameters \<Rightarrow> ValuationParameters \<Rightarrow> redis
   \<Rightarrow> (exn + cached list) \<times> SearchParameters \<times> redis" where
  "create_valuations lib finder key params valuation_params cache =
     (let params_rent = to_rent params in
      case finder params_rent cache of
        (Inl e, cache1) \<Rightarrow> (Inl e, params_rent, cache1)
      | (Inr rent_properties, cache1) \<Rightarrow>
          (let params_buy = to_buy params_rent in
           case finder params_buy cache1 of
             (Inl e, cache2) \<Rightarrow> (Inl e, params_buy, cache2)
           | (Inr buy_properties, cache2) \<Rightarrow>
               (case get_valuation (griddata_fn lib) rent_properties buy_properties
                       valuation_params of
                  Inl e \<Rightarrow> (Inl e, params_buy, cache2)
                | Inr valuations \<Rightarrow>
                    (Inr (map as_object valuations), params_buy,
                     save_to_cache lib cache2 key (map as_object valuations)))))"

definition rank_properties ::
  "library \<Rightarrow> find_properties \<Rightarrow> SearchParameters \<Rightarrow> ValuationParameters \<Rightarrow> redis
   \<Rightarrow> (exn + cached list) \<times> SearchParameters \<times> redis" where
  "rank_properties lib finder params valuation_params cache =
     (let params_buy = to_buy params;
          key = cache_key lib params_buy valuation_params
      in case load_from_cache lib cache key of
           Some valuations \<Rightarrow> (Inr valuations, params_buy, cache)
         | None \<Rightarrow> create_valuations lib finder key params_buy valuation_params cache)"

section \<open>Concrete inputs\<close>

text \<open>The inputs of the worked example: a listing at 200000 and a 25 year mortgage at 3 percent.\<close>

definition example_params :: ValuationParameters where
  "example_params = \<lparr>min_deposit = 0, max_deposit = 40000, mortgage_length = 25,
     mortgage_interest_rate = 3, investment_increase = 0, investment_deduction = 0,
     rent_increase = 0, rent_deduction = 0\<rparr>"

definition example_listing :: listing where
  "example_listing = \<lparr>identifier = ''1'', display_address = ''a'', price = 200000,
     geo_location = \<lparr>latitude = 51, longitude = 0\<rparr>, purchase_category = BUY,
     image_url = ''''\<rparr>"

definition example_engine :: engine where
  "example_engine = \<lparr>points = [], values_of = [], average_price = 0\<rparr>"

text \<open>An interpolation that answers 1000 everywhere.\<close>

definition constant_grid :: "rat \<Rightarrow> griddata" where
  "constant_grid c = (\<lambda>pts vals q. Inr (Interp c))"

text \<open>A one year mortgage at a monthly rate of 1, a rental sample and two purchase listings.\<close>

definition small_params :: ValuationParameters where
  "small_params = \<lparr>min_deposit = 0, max_deposit = 100, mortgage_length = 1,
     mortgage_interest_rate = 1200, investment_increase = 0, investment_deduction = 0,
     rent_increase = 0, rent_deduction = 0\<rparr>"

definition rent_listing :: listing where
  "rent_listing = \<lparr>identifier = ''r'', display_address = ''r'', price = 1000,
     geo_location = \<lparr>latitude = 51, longitude = 0\<rparr>, purchase_category = RENT,
     image_url = ''''\<rparr>"

definition listing_1 :: listing where
  "listing_1 = \<lparr>identifier = ''1'', display_address = ''one'', price = 4195,
     geo_location = \<lparr>latitude = 51, longitude = 0\<rparr>, purchase_category = BUY,
     image_url = ''''\<rparr>"

definition listing_2 :: listing where
  "listing_2 = \<lparr>identifier = ''2'', display_address = ''two'', price = 100,
     geo_location = \<lparr>latitude = 52, longitude = 1\<rparr>, purchase_category = BUY,
     image_url = ''''\<rparr>"

text \<open>Three valuations in source order, with scores 9.1, 5.0 and 9.1.\<close>

definition valuation_A :: scored where
  "valuation_A = \<lparr>property = example_listing\<lparr>identifier := ''A''\<rparr>,
     estimated_rental_income = 1000, return_on_investment = 91 / 10\<rparr>"

definition valuation_B :: scored where
  "valuation_B = \<lparr>property = example_listing\<lparr>identifier := ''B''\<rparr>,
     estimated_rental_income = 1000, return_on_investment = 5\<rparr>"

definition valuation_C :: scored where
  "valuation_C = \<lparr>property = example_listing\<lparr>identifier := ''C''\<rparr>,
     estimated_rental_income = 1000, return_on_investment = 91 / 10\<rparr>"



text \<open>
  A library whose \<^verbatim>\<open>json.loads\<close> always raises, a search that answers with fixed
  listings, and cache clients without and with faults.
\<close>

definition broken_json :: library where
  "broken_json = \<lparr>dumps = (\<lambda>v. []), loads = (\<lambda>s. Inl (ValueError ''Expecting value'')),
     griddata_fn = constant_grid 1000, fmt_number = (\<lambda>r. ''0'')\<rparr>"

definition fixed_finder :: "listing list \<Rightarrow> listing list \<Rightarrow> find_properties" where
  "fixed_finder rents buys =
     (\<lambda>params cache.
        (Inr (case sp_purchase_category params of RENT \<Rightarrow> rents | BUY \<Rightarrow> buys), cache))"

definition empty_cache :: redis where
  "empty_cache = \<lparr>store = Map.empty, get_fault = None, set_fault = None\<rparr>"

definition unreachable_cache :: redis where
  "unreachable_cache =
     \<lparr>store = Map.empty, get_fault = Some ConnectionError, set_fault = Some ConnectionError\<rparr>"

definition example_search :: SearchParameters where
  "example_search = \<lparr>location_name = ''London'', location_id = ''REGION^87490'',
     radius = 1 / 4, min_price = None, max_price = Some 500000, min_bedrooms = None,
     max_bedrooms = None, max_days_since_added = None, property_types = [FLAT, LAND],
     must_have = [], dont_show = [DS_SHARED_OWNERSHIP], furnish_types = [FURNISHED],
     sp_purchase_category = RENT\<rparr>"

text \<open>
  A library whose \<^verbatim>\<open>json.loads\<close> answers every text with a list of one object that
  has an identifier only, and a cache client that holds a text under every key.
\<close>

definition stale_json :: library where
  "stale_json = \<lparr>dumps = (\<lambda>v. []),
     loads = (\<lambda>s. Inr (PList [PDict [(''identifier'', PStr ''1'')]])),
     griddata_fn = constant_grid 1000, fmt_number = (\<lambda>r. ''0'')\<rparr>"

definition full_cache :: redis where
  "full_cache = \<lparr>store = (\<lambda>key. Some (''[]'', 1800)), get_fault = None,
     set_fault = Some ConnectionError\<rparr>"

text \<open>
  A library whose \<^verbatim>\<open>json.dumps\<close> is injective and whose \<^verbatim>\<open>json.loads\<close> inverts
  it: a value is written as a text whose length is the code of the value.
\<close>

definition unary_json :: library where
  "unary_json = \<lparr>dumps = (\<lambda>v. replicate (to_nat v) CHR ''1''),
     loads = (\<lambda>s. Inr (from_nat (length s))),
     griddata_fn = constant_grid 1000, fmt_number = (\<lambda>r. ''0'')\<rparr>"

text \<open>A search that raises.\<close>

definition failing_finder :: find_properties where
  "failing_finder = (\<lambda>params cache. (Inl ConnectionError, cache))"

text \<open>A second rental sample, on the latitude of the first.\<close>

definition rent_listing_east :: listing where
  "rent_listing_east = \<lparr>identifier = ''e'', display_address = ''e'', price = 1200,
     geo_location = \<lparr>latitude = 51, longitude = 1\<rparr>, purchase_category = RENT,
     image_url = ''''\<rparr>"



section \<open>The worked example of the score\<close>

text \<open>Bounds on \<open>1.0025 ^ 300\<close>, by repeated powers of rounded bounds.\<close>

lemma pow_300_bounds:
  "(2115019 / 1000000 :: rat) < (401 / 400) ^ 300 \<and> (401 / 400 :: rat) ^ 300 < 2115020 / 1000000"
proof -
  let ?x = "401 / 400 :: rat"
  have b10: "1025283133 / 1000000000 \<le> ?x ^ 10" "?x ^ 10 \<le> 512641567 / 500000000"
    by (simp_all add: power_divide)
  have e100: "?x ^ 100 = (?x ^ 10) ^ 10"
    by (simp add: power_mult [symmetric])
  have "(1025283133 / 1000000000 :: rat) ^ 10 \<le> (?x ^ 10) ^ 10"
    using b10(1) by (intro power_mono) simp_all
  moreover have "(256724977 / 200000000 :: rat) \<le> (1025283133 / 1000000000) ^ 10"
    by (simp add: power_divide)
  ultimately have l100: "256724977 / 200000000 \<le> ?x ^ 100"
    unfolding e100 by linarith
  have "(?x ^ 10) ^ 10 \<le> (512641567 / 500000000 :: rat) ^ 10"
    using b10(2) by (intro power_mono) simp_all
  moreover have "(512641567 / 500000000 :: rat) ^ 10 \<le> 1283624899 / 1000000000"
    by (simp add: power_divide)
  ultimately have u100: "?x ^ 100 \<le> 1283624899 / 1000000000"
    unfolding e100 by linarith
  have e300: "?x ^ 300 = (?x ^ 100) ^ 3"
    by (simp add: power_mult [symmetric])
  have "(256724977 / 200000000 :: rat) ^ 3 \<le> (?x ^ 100) ^ 3"
    using l100 by (intro power_mono) simp_all
  moreover have "(2115019 / 1000000 :: rat) < (256724977 / 200000000) ^ 3"
    by (simp add: power_divide)
  ultimately have l300: "2115019 / 1000000 < ?x ^ 300"
    unfolding e300 by linarith
  have "(?x ^ 100) ^ 3 \<le> (1283624899 / 1000000000 :: rat) ^ 3"
    using u100 by (intro power_mono) simp_all
  moreover have "(1283624899 / 1000000000 :: rat) ^ 3 < 2115020 / 1000000"
    by (simp add: power_divide)
  ultimately have u300: "?x ^ 300 < 2115020 / 1000000"
    unfolding e300 by linarith
  show ?thesis using l300 u300 by simp
qed

lemma round2_nearest:
  assumes "of_int k - 1 / 2 < 100 * x" "100 * x < of_int k + 1 / 2"
  shows "round2 x = of_int k / 100"
proof (cases "of_int k \<le> 100 * x")
  case True
  then have f: "\<lfloor>x * 100\<rfloor> = k" using assms by (intro floor_unique) (simp_all add: mult.commute)
  show ?thesis using assms True by (simp add: round2_def round_half_even_def Let_def f mult.commute)
next
  case False
  then have f: "\<lfloor>x * 100\<rfloor> = k - 1" using assms by (intro floor_unique) (simp_all add: mult.commute)
  show ?thesis using assms False by (simp add: round2_def round_half_even_def Let_def f mult.commute)
qed

lemma monthly_mortgage_example:
  assumes "max_deposit vp = 40000" "mortgage_interest_rate vp = 3" "mortgage_length vp = 25"
  shows "monthly_mortgage 200000 vp = Inr (400 * (401 / 400) ^ 300 / ((401 / 400) ^ 300 - 1))"
proof -
  define pw :: rat where "pw = (401 / 400) ^ 300"
  have ne: "pw - 1 \<noteq> 0"
    using pow_300_bounds unfolding pw_def by linarith
  have p: "math_pow (1 + 3 / (12 * 100)) (25 * 12) = Inr pw"
    by (simp add: math_pow_def pw_def)
  have "monthly_mortgage 200000 vp = Inr (160000 * (3 / (12 * 100)) * pw / (pw - 1))"
    unfolding monthly_mortgage_def Let_def assms p using ne by simp
  also have "160000 * (3 / (12 * 100)) * pw / (pw - 1) = 400 * pw / (pw - 1)"
    by simp
  finally show ?thesis unfolding pw_def .
qed

lemma payment_bounds:
  fixes pw :: rat
  assumes "2115019 / 1000000 < pw" "pw < 2115020 / 1000000"
  shows "75873 / 100 < 400 * pw / (pw - 1)" "400 * pw / (pw - 1) < 75874 / 100"
proof -
  have pos: "0 < pw - 1" using assms by linarith
  show "75873 / 100 < 400 * pw / (pw - 1)"
    using assms pos by (simp add: pos_less_divide_eq) 
  show "400 * pw / (pw - 1) < 75874 / 100"
    using assms pos by (simp add: pos_divide_less_eq)
qed

text \<open>
  C1. With a purchase price of 200000, a deposit of 40000, a rate of 3 percent over 25
  years, no increases or deductions and an estimated rent of 1000 at the listing's
  coordinates, the monthly payment is within 0.1 of 758.8, the net annual income within 1
  of 2894.4, and the score within 0.05 of 7.24 (it is 7.24).
\<close>

theorem score_worked_example:
  assumes "price prop = 200000" and "max_deposit vp = 40000"
    and "mortgage_interest_rate vp = 3" and "mortgage_length vp = 25"
    and "investment_increase vp = 0" and "investment_deduction vp = 0"
    and "rent_increase vp = 0" and "rent_deduction vp = 0"
    and "get_height gd self (longitude (geo_location prop)) (latitude (geo_location prop)) = Inr 1000"
  shows "\<exists>m a s. monthly_mortgage (price prop) vp = Inr m \<and> \<bar>m - 7588 / 10\<bar> < 1 / 10
           \<and> net_annual_income 1000 (price prop) vp = Inr a \<and> \<bar>a - 28944 / 10\<bar> < 1
           \<and> get_score gd self prop vp = Inr s \<and> \<bar>s - 724 / 100\<bar> \<le> 5 / 100"
proof -
  define m :: rat where "m = 400 * (401 / 400) ^ 300 / ((401 / 400) ^ 300 - 1)"
  have mm: "monthly_mortgage (price prop) vp = Inr m"
    unfolding m_def using assms(1-4) by (simp add: monthly_mortgage_example)
  have mb: "75873 / 100 < m" "m < 75874 / 100"
    unfolding m_def
    using payment_bounds [OF conjunct1 [OF pow_300_bounds] conjunct2 [OF pow_300_bounds]]
    by blast+
  define a :: rat where "a = (1000 - m) * 12"
  have na: "net_annual_income 1000 (price prop) vp = Inr a"
    using mm assms(7,8) by (simp add: net_annual_income_def a_def)
  have r: "round2 (100 * a / 40000) = 724 / 100"
    using mb round2_nearest [of 724 "100 * a / 40000"] by (simp add: a_def)
  have sc: "get_score gd self prop vp = Inr (724 / 100)"
    using assms na r by (simp add: get_score_def Let_def)
  have "\<bar>m - 7588 / 10\<bar> < 1 / 10" using mb by linarith
  moreover have "a = 12000 - 12 * m" unfolding a_def by simp
  then have "\<bar>a - 28944 / 10\<bar> < 1" using mb by linarith
  moreover have "\<bar>(724 / 100 :: rat) - 724 / 100\<bar> \<le> 5 / 100" by simp
  ultimately show ?thesis
    using mm na sc by blast
qed

theorem score_worked_example_witness:
  "\<exists>m a s. monthly_mortgage (price example_listing) example_params = Inr m
       \<and> \<bar>m - 7588 / 10\<bar> < 1 / 10
     \<and> net_annual_income 1000 (price example_listing) example_params = Inr a
       \<and> \<bar>a - 28944 / 10\<bar> < 1
     \<and> get_score (constant_grid 1000) example_engine example_listing example_params = Inr s
       \<and> \<bar>s - 724 / 100\<bar> \<le> 5 / 100"
  using score_worked_example [of example_listing example_params "constant_grid 1000" example_engine]
  by (simp add: get_height_def constant_grid_def example_listing_def example_params_def)

section \<open>The outlier filter\<close>

text \<open>For a percentage between 0 and 100 both neighbours are elements of the data.\<close>

lemma percentile_indices:
  fixes q :: rat
  assumes "0 \<le> q" "q \<le> 100" "0 < n"
  shows "nat \<lfloor>q / 100 * of_nat (n - 1)\<rfloor> < n"
    and "min (nat \<lfloor>q / 100 * of_nat (n - 1)\<rfloor> + 1) (n - 1) < n"
proof -
  have "q / 100 * of_nat (n - 1) \<le> 1 * of_nat (n - 1)"
    using assms by (intro mult_right_mono) simp_all
  then have "\<lfloor>q / 100 * of_nat (n - 1)\<rfloor> \<le> int (n - 1)"
    by (simp add: floor_le_iff)
  then show "nat \<lfloor>q / 100 * of_nat (n - 1)\<rfloor> < n"
    using assms(3) by linarith
  show "min (nat \<lfloor>q / 100 * of_nat (n - 1)\<rfloor> + 1) (n - 1) < n"
    using assms(3) by simp
qed

lemma percentile_nonempty:
  "data \<noteq> [] \<Longrightarrow> \<exists>q. percentile data p = Some q"
  by (simp add: percentile_def Let_def)

text \<open>
  C3. Every value that the outlier filter returns lies within the inclusive bounds
  \<open>[Q1 - threshold * IQR, Q3 + threshold * IQR]\<close>, where \<open>Q1\<close> and \<open>Q3\<close> are the
  linear-interpolation 25th and 75th percentiles of the unfiltered input and
  \<open>IQR = Q3 - Q1\<close>; the result is exactly the input values within those bounds, it is
  no longer than the input, and the default threshold is 1.5.
\<close>

theorem remove_outliers_within_bounds:
  "(data \<noteq> [] \<longrightarrow>
        (\<exists>q1 q3. percentile data 25 = Some q1 \<and> percentile data 75 = Some q3
           \<and> (\<forall>x \<in> set (remove_outliers data threshold).
                 q1 - threshold * (q3 - q1) \<le> x \<and> x \<le> q3 + threshold * (q3 - q1))
           \<and> remove_outliers data threshold =
               [x \<leftarrow> data. q1 - threshold * (q3 - q1) \<le> x \<and> x \<le> q3 + threshold * (q3 - q1)]))
   \<and> length (remove_outliers data threshold) \<le> length data
   \<and> remove_outliers_default data = remove_outliers data (3 / 2)"
proof (intro conjI impI)
  assume ne: "data \<noteq> []"
  obtain q1 where q1: "percentile data 25 = Some q1"
    using percentile_nonempty [OF ne] by blast
  obtain q3 where q3: "percentile data 75 = Some q3"
    using percentile_nonempty [OF ne] by blast
  have eq: "remove_outliers data threshold =
      [x \<leftarrow> data. q1 - threshold * (q3 - q1) \<le> x \<and> x \<le> q3 + threshold * (q3 - q1)]"
    by (simp add: remove_outliers_def q1 q3 Let_def mult.commute)
  have "\<forall>x \<in> set (remove_outliers data threshold).
      q1 - threshold * (q3 - q1) \<le> x \<and> x \<le> q3 + threshold * (q3 - q1)"
    unfolding eq by simp
  with q1 q3 eq
  show "\<exists>q1 q3. percentile data 25 = Some q1 \<and> percentile data 75 = Some q3
           \<and> (\<forall>x \<in> set (remove_outliers data threshold).
                 q1 - threshold * (q3 - q1) \<le> x \<and> x \<le> q3 + threshold * (q3 - q1))
           \<and> remove_outliers data threshold =
               [x \<leftarrow> data. q1 - threshold * (q3 - q1) \<le> x \<and> x \<le> q3 + threshold * (q3 - q1)]"
    by blast
next
  show "length (remove_outliers data threshold) \<le> length data"
    by (simp add: remove_outliers_def Let_def split: option.splits)
next
  show "remove_outliers_default data = remove_outliers data (3 / 2)"
    by (simp add: remove_outliers_default_def)
qed

lemma percentile_example:
  "percentile [1, 2, 3, 4, 100] 25 = Some 2" "percentile [1, 2, 3, 4, 100] 75 = Some 4"
  by (simp_all add: percentile_def Let_def)

theorem remove_outliers_within_bounds_witness:
  "[1, 2, 3, 4, 100 :: rat] \<noteq> []
   \<and> percentile [1, 2, 3, 4, 100] 25 = Some 2 \<and> percentile [1, 2, 3, 4, 100] 75 = Some 4
   \<and> remove_outliers [1, 2, 3, 4, 100] (3 / 2) = [1, 2, 3, 4]
   \<and> remove_outliers_default [1, 2, 3, 4, 100] = [1, 2, 3, 4]
   \<and> length (remove_outliers [1, 2, 3, 4, 100] (3 / 2)) \<le> length [1, 2, 3, 4, 100 :: rat]"
  using remove_outliers_within_bounds [of "[1, 2, 3, 4, 100]" "3 / 2"]
  by (simp add: percentile_example)


section \<open>The loop over the purchase listings and the ranking\<close>

lemma get_height_not_ValueError:
  "get_height gd self x y = Inl e \<Longrightarrow> \<not> isValueError e"
  by (auto simp: get_height_def split: sum.splits grid_value.splits if_splits)


lemma valuation_loop_collects:
  "valuation_loop gd self vp ps acc = Inr vs \<Longrightarrow>
     \<exists>cs. vs = acc @ cs \<and> subseq (map property cs) ps
       \<and> (\<forall>c \<in> set cs. make_valuation gd self (property c) vp = Inr c)"
proof (induction ps arbitrary: acc)
  case Nil
  then show ?case by simp
next
  case (Cons p ps)
  show ?case
  proof (cases "make_valuation gd self p vp")
    case (Inr v)
    with Cons.prems have "valuation_loop gd self vp ps (acc @ [v]) = Inr vs" by simp
    from Cons.IH [OF this] obtain cs where cs: "vs = (acc @ [v]) @ cs"
      "subseq (map property cs) ps" "\<forall>c \<in> set cs. make_valuation gd self (property c) vp = Inr c"
      by blast
    have pv: "property v = p"
      using Inr by (auto simp: make_valuation_def split: sum.splits)
    have "vs = acc @ (v # cs)" using cs(1) by simp
    moreover have "subseq (map property (v # cs)) (p # ps)" using cs(2) pv by simp
    moreover have "\<forall>c \<in> set (v # cs). make_valuation gd self (property c) vp = Inr c"
      using cs(3) Inr pv by simp
    ultimately show ?thesis by blast
  next
    case (Inl e)
    with Cons.prems have "valuation_loop gd self vp ps acc = Inr vs"
      by (simp split: if_splits)
    from Cons.IH [OF this] obtain cs where cs: "vs = acc @ cs"
      "subseq (map property cs) ps" "\<forall>c \<in> set cs. make_valuation gd self (property c) vp = Inr c"
      by blast
    have "subseq (map property cs) (p # ps)" using cs(2) by (rule list_emb_Cons)
    with cs show ?thesis by blast
  qed
qed

lemma sorted_py_descending:
  "sorted_wrt (\<lambda>a b. return_on_investment b \<le> (return_on_investment a :: rat))
     (sorted_py (\<lambda>v. - return_on_investment v) vs)"
proof -
  have "sorted (map (\<lambda>v. - return_on_investment v) (sort_key (\<lambda>v. - return_on_investment v) vs))"
    by (rule sorted_sort_key)
  then show ?thesis
    by (simp add: sorted_py_def sorted_map)
qed

lemma sorted_py_stable:
  "[v \<leftarrow> sorted_py (\<lambda>v. - return_on_investment v) vs. return_on_investment v = (k :: rat)]
     = [v \<leftarrow> vs. return_on_investment v = k]"
proof -
  have "[v \<leftarrow> sort_key (\<lambda>v. - return_on_investment v) vs. - return_on_investment v = - k]
     = [v \<leftarrow> vs. - return_on_investment v = - k]"
    by (rule sort_key_stable)
  then show ?thesis by (simp add: sorted_py_def)
qed

text \<open>
  C4. The list that the compute path returns is sorted by return on investment in
  descending order, and the valuations of equal return on investment appear in the order of
  their listings in the purchase sequence (the sort is stable); for the source order
  A (9.1), B (5.0), C (9.1) the output order is A, C, B.
\<close>

theorem ranking_sorted_stable:
  "(get_valuation gd rent_properties buy_properties vp = Inr vs \<longrightarrow>
      sorted_wrt (\<lambda>a b. return_on_investment b \<le> return_on_investment a) vs
      \<and> (\<forall>k. subseq (map property [v \<leftarrow> vs. return_on_investment v = k]) buy_properties))
   \<and> sorted_py (\<lambda>v. - return_on_investment v) [valuation_A, valuation_B, valuation_C]
       = [valuation_A, valuation_C, valuation_B]"
proof (intro conjI impI allI)
  assume run: "get_valuation gd rent_properties buy_properties vp = Inr vs"
  show "sorted_wrt (\<lambda>a b. return_on_investment b \<le> return_on_investment a) vs"
    using run sorted_py_descending
    by (auto simp: get_valuation_def Let_def split: if_splits sum.splits)
next
  fix k
  assume run: "get_valuation gd rent_properties buy_properties vp = Inr vs"
  show "subseq (map property [v \<leftarrow> vs. return_on_investment v = k]) buy_properties"
  proof (cases "length rent_properties = 0 \<or> length buy_properties = 0")
    case True
    with run show ?thesis by (simp add: get_valuation_def)
  next
    case False
    with run obtain self cs where
      loop: "valuation_loop gd self vp buy_properties [] = Inr cs"
      and vs: "vs = sorted_py (\<lambda>v. - return_on_investment v) cs"
      by (auto simp: get_valuation_def Let_def split: sum.splits)
    from valuation_loop_collects [OF loop]
    have sub: "subseq (map property cs) buy_properties" by auto
    have "[v \<leftarrow> vs. return_on_investment v = k] = [v \<leftarrow> cs. return_on_investment v = k]"
      unfolding vs by (rule sorted_py_stable)
    moreover have "subseq (map property [v \<leftarrow> cs. return_on_investment v = k]) (map property cs)"
      by (intro subseq_map subseq_filter_left)
    ultimately show ?thesis
      using sub subseq_order.order_trans by fastforce
  qed
next
  show "sorted_py (\<lambda>v. - return_on_investment v) [valuation_A, valuation_B, valuation_C]
       = [valuation_A, valuation_C, valuation_B]"
    by (simp add: sorted_py_def valuation_A_def valuation_B_def valuation_C_def)
qed


text \<open>A run of the compute path on concrete listings.\<close>

lemma remove_outliers_single: "remove_outliers_default [1000] = [1000]"
  by (simp add: remove_outliers_default_def remove_outliers_def percentile_def Let_def)

lemma fit_rent_listing:
  "fit [rent_listing] = Inr \<lparr>points = [(0, 51), (0, 51), (0, 51), (0, 51), (0, 51)],
     values_of = [1000, 1000, 1000, 1000, 1000], average_price = 1000\<rparr>"
  by (simp add: fit_def py_min_def py_max_def rent_listing_def Let_def)

lemma score_1: "get_score (constant_grid 1000) self listing_1 small_params = Inr (- 37152)"
  by (simp add: get_score_def get_height_def constant_grid_def listing_1_def small_params_def
      net_annual_income_def monthly_mortgage_def math_pow_def round2_def round_half_even_def Let_def)

lemma score_2: "get_score (constant_grid 1000) self listing_2 small_params = Inr 12000"
  by (simp add: get_score_def get_height_def constant_grid_def listing_2_def small_params_def
      net_annual_income_def monthly_mortgage_def math_pow_def round2_def round_half_even_def Let_def)

lemma small_run:
  "get_valuation (constant_grid 1000) [rent_listing] [listing_1, listing_2] small_params =
     Inr [\<lparr>property = listing_2, estimated_rental_income = 1000, return_on_investment = 12000\<rparr>,
          \<lparr>property = listing_1, estimated_rental_income = 1000, return_on_investment = - 37152\<rparr>]"
proof -
  have p: "price rent_listing = 1000" by (simp add: rent_listing_def)
  have h: "\<And>self x y. get_height (constant_grid 1000) self x y = Inr 1000"
    by (simp add: get_height_def constant_grid_def)
  show ?thesis
    by (simp add: get_valuation_def p remove_outliers_single fit_rent_listing make_valuation_def
        h score_1 score_2 sorted_py_def)
qed

theorem ranking_sorted_stable_witness:
  "\<exists>vs. get_valuation (constant_grid 1000) [rent_listing] [listing_1, listing_2] small_params = Inr vs
     \<and> vs = [\<lparr>property = listing_2, estimated_rental_income = 1000, return_on_investment = 12000\<rparr>,
          \<lparr>property = listing_1, estimated_rental_income = 1000, return_on_investment = - 37152\<rparr>]
     \<and> sorted_wrt (\<lambda>a b. return_on_investment b \<le> return_on_investment a) vs
     \<and> subseq (map property [v \<leftarrow> vs. return_on_investment v = 12000]) [listing_1, listing_2]"
  using ranking_sorted_stable [of "constant_grid 1000" "[rent_listing]" "[listing_1, listing_2]"
      small_params
      "[\<lparr>property = listing_2, estimated_rental_income = 1000, return_on_investment = 12000\<rparr>,
        \<lparr>property = listing_1, estimated_rental_income = 1000, return_on_investment = - 37152\<rparr>]"]
    small_run
  by blast

section \<open>Degenerate scores\<close>






















section \<open>The orchestrator\<close>

text \<open>
  C7. On a cache miss, when the search returns no rental listings or no purchase listings,
  the orchestrator returns the empty list and raises nothing; the compute path returns the
  empty list before it filters, fits or scores, whatever the interpolation is.
\<close>

theorem empty_listings_empty_ranking:
  "get_valuation gd [] buys vp = Inr [] \<and> get_valuation gd rents [] vp = Inr []
   \<and> (load_from_cache lib cache (cache_key lib (to_buy params) vp) = None
        \<and> finder (to_rent (to_buy params)) cache = (Inr rents, cache1)
        \<and> finder (to_buy (to_rent (to_buy params))) cache1 = (Inr buys, cache2)
        \<and> (rents = [] \<or> buys = [])
      \<longrightarrow> fst (rank_properties lib finder params vp cache) = Inr [])"
proof (intro conjI impI)
  show "get_valuation gd [] buys vp = Inr []" by (simp add: get_valuation_def)
  show "get_valuation gd rents [] vp = Inr []" by (simp add: get_valuation_def)
next
  assume a: "load_from_cache lib cache (cache_key lib (to_buy params) vp) = None
        \<and> finder (to_rent (to_buy params)) cache = (Inr rents, cache1)
        \<and> finder (to_buy (to_rent (to_buy params))) cache1 = (Inr buys, cache2)
        \<and> (rents = [] \<or> buys = [])"
  then have "get_valuation (griddata_fn lib) rents buys vp = Inr []"
    by (auto simp: get_valuation_def)
  with a show "fst (rank_properties lib finder params vp cache) = Inr []"
    by (simp add: rank_properties_def create_valuations_def Let_def)
qed

theorem empty_listings_empty_ranking_witness:
  "load_from_cache broken_json unreachable_cache
       (cache_key broken_json (to_buy example_search) example_params) = None
   \<and> fst (rank_properties broken_json (fixed_finder [] [example_listing]) example_search
         example_params unreachable_cache) = Inr []"
proof -
  have m: "load_from_cache broken_json unreachable_cache
       (cache_key broken_json (to_buy example_search) example_params) = None"
    by (simp add: load_from_cache_def Cache_get_def unreachable_cache_def)
  have r: "fixed_finder [] [example_listing] (to_rent (to_buy example_search)) unreachable_cache
      = (Inr [], unreachable_cache)"
    by (simp add: fixed_finder_def to_rent_def)
  have b: "fixed_finder [] [example_listing] (to_buy (to_rent (to_buy example_search)))
      unreachable_cache = (Inr [example_listing], unreachable_cache)"
    by (simp add: fixed_finder_def to_buy_def)
  show ?thesis
    using empty_listings_empty_ranking [where lib = broken_json and cache = unreachable_cache
        and params = example_search and vp = example_params
        and finder = "fixed_finder [] [example_listing]" and rents = "[]"
        and buys = "[example_listing]" and ?cache1.0 = unreachable_cache
        and ?cache2.0 = unreachable_cache, THEN conjunct2, THEN conjunct2] m r b
    by simp
qed

text \<open>
  C10. \<^verbatim>\<open>to_buy\<close> and \<^verbatim>\<open>to_rent\<close> assign the purchase category of the shared
  parameters object, and when \<^verbatim>\<open>rank_properties\<close> returns a list the object is the
  caller's with the purchase category \<open>BUY\<close>, every other attribute as it was.
\<close>

theorem rank_properties_leaves_buy:
  "to_buy params = params\<lparr>sp_purchase_category := BUY\<rparr>
   \<and> to_rent params = params\<lparr>sp_purchase_category := RENT\<rparr>
   \<and> (rank_properties lib finder params vp cache = (Inr vs, params', cache')
      \<longrightarrow> params' = params\<lparr>sp_purchase_category := BUY\<rparr>)"
  by (auto simp: rank_properties_def create_valuations_def to_buy_def to_rent_def Let_def
      split: option.splits sum.splits prod.splits)

theorem rank_properties_leaves_buy_witness:
  "\<exists>vs cache'. rank_properties broken_json (fixed_finder [] [example_listing]) example_search
        example_params unreachable_cache
      = (Inr vs, example_search\<lparr>sp_purchase_category := BUY\<rparr>, cache')
    \<and> sp_purchase_category example_search = RENT"
proof -
  obtain res p' c' where run: "rank_properties broken_json (fixed_finder [] [example_listing])
      example_search example_params unreachable_cache = (res, p', c')"
    by (cases "rank_properties broken_json (fixed_finder [] [example_listing])
      example_search example_params unreachable_cache") blast
  have "res = Inr []"
    using run by (simp add: rank_properties_def create_valuations_def load_from_cache_def
        Cache_get_def unreachable_cache_def fixed_finder_def to_buy_def to_rent_def
        get_valuation_def Let_def)
  with run rank_properties_leaves_buy [where lib = broken_json and params = example_search
      and finder = "fixed_finder [] [example_listing]" and vp = example_params
      and cache = unreachable_cache and vs = "[]" and params' = p' and cache' = c']
  show ?thesis
    by (simp add: example_search_def)
qed


section \<open>Cache failures\<close>

lemma valuation_of_obj_keys:
  assumes "valuation_of_obj (PDict d) = Inr v"
  shows "mandatory_keys \<subseteq> fst ` set d"
    and "py_in ''latitude'' (the (map_of d ''geo_location'')) = Inr True"
    and "py_in ''longitude'' (the (map_of d ''geo_location'')) = Inr True"
proof -
  have 1: "''identifier'' \<in> fst ` set d"
    by (rule ccontr) (use assms in \<open>simp add: valuation_of_obj_def\<close>)
  have 2: "''display_address'' \<in> fst ` set d"
    by (rule ccontr) (use assms 1 in \<open>simp add: valuation_of_obj_def\<close>)
  have 3: "''price'' \<in> fst ` set d"
    by (rule ccontr) (use assms 1 2 in \<open>simp add: valuation_of_obj_def\<close>)
  have 4: "''geo_location'' \<in> fst ` set d"
    by (rule ccontr) (use assms 1 2 3 in \<open>simp add: valuation_of_obj_def\<close>)
  note pre = 1 2 3 4
  show 5: "py_in ''latitude'' (the (map_of d ''geo_location'')) = Inr True"
    using assms pre by (simp add: valuation_of_obj_def split: sum.splits bool.splits)
  show 6: "py_in ''longitude'' (the (map_of d ''geo_location'')) = Inr True"
    using assms pre 5 by (simp add: valuation_of_obj_def split: sum.splits bool.splits)
  have 7: "''purchase_category'' \<in> fst ` set d"
    by (rule ccontr) (use assms pre 5 6 in \<open>simp add: valuation_of_obj_def\<close>)
  have 8: "''estimated_rental_income'' \<in> fst ` set d"
    by (rule ccontr) (use assms pre 5 6 7 in \<open>simp add: valuation_of_obj_def\<close>)
  have 9: "''return_on_investment'' \<in> fst ` set d"
    by (rule ccontr) (use assms pre 5 6 7 8 in \<open>simp add: valuation_of_obj_def\<close>)
  have 10: "''image_url'' \<in> fst ` set d"
    by (rule ccontr) (use assms pre 5 6 7 8 9 in \<open>simp add: valuation_of_obj_def\<close>)
  show "mandatory_keys \<subseteq> fst ` set d"
    using pre 7 8 9 10 by (simp add: mandatory_keys_def)
qed

lemma valuation_of_obj_missing_key:
  assumes "k \<in> mandatory_keys"
    and "k \<notin> fst ` set d"
  shows "\<exists>e. valuation_of_obj (PDict d) = Inl e"
proof (cases "valuation_of_obj (PDict d)")
  case (Inl e)
  then show ?thesis by blast
next
  case (Inr v)
  from valuation_of_obj_keys(1) [OF Inr] assms show ?thesis by blast
qed

lemma valuation_of_obj_missing_coordinate:
  assumes "map_of d ''geo_location'' = Some (PDict g)"
    and "''latitude'' \<notin> fst ` set g \<or> ''longitude'' \<notin> fst ` set g"
  shows "\<exists>e. valuation_of_obj (PDict d) = Inl e"
proof (cases "valuation_of_obj (PDict d)")
  case (Inl e)
  then show ?thesis by blast
next
  case (Inr v)
  from valuation_of_obj_keys(2,3) [OF Inr] assms show ?thesis
    by (auto simp: py_in_def)
qed

lemma valuations_of_objs_raise:
  "obj \<in> set objs \<Longrightarrow> valuation_of_obj obj = Inl e \<Longrightarrow> \<exists>e'. valuations_of_objs objs = Inl e'"
  by (induction objs) (auto split: sum.splits)

lemma convert_payload_raises:
  assumes "ld s = Inr (PList objs)" "obj \<in> set objs" "valuation_of_obj obj = Inl e"
  shows "\<exists>e'. convert_payload_to_valuations ld (PStr s) = Inl e'"
  using valuations_of_objs_raise [OF assms(2,3)] assms(1)
  by (auto simp: convert_payload_to_valuations_def json_loads_py_def)

lemma create_valuations_raise:
  assumes "fst (create_valuations lib finder key p vp cache) = Inl e"
  shows "(\<exists>q c c'. finder q c = (Inl e, c'))
     \<or> (\<exists>rents buys. get_valuation (griddata_fn lib) rents buys vp = Inl e)"
proof -
  obtain r1 c1 where f1: "finder (to_rent p) cache = (r1, c1)" by (cases "finder (to_rent p) cache")
  show ?thesis
  proof (cases r1)
    case (Inl e1)
    with f1 assms show ?thesis by (auto simp: create_valuations_def Let_def)
  next
    case rents: (Inr rents)
    obtain r2 c2 where f2: "finder (to_buy (to_rent p)) c1 = (r2, c2)"
      by (cases "finder (to_buy (to_rent p)) c1")
    show ?thesis
    proof (cases r2)
      case (Inl e2)
      with f1 f2 rents assms show ?thesis by (auto simp: create_valuations_def Let_def)
    next
      case buys: (Inr buys)
      with f1 f2 rents assms show ?thesis
        by (auto simp: create_valuations_def Let_def split: sum.splits)
    qed
  qed
qed

lemma load_from_cache_miss:
  "load_from_cache lib cache key = None \<Longrightarrow>
     rank_properties lib finder params vp cache
       = create_valuations lib finder (cache_key lib (to_buy params) vp) (to_buy params) vp cache"
  if "key = cache_key lib (to_buy params) vp"
  using that by (simp add: rank_properties_def Let_def)

lemma load_from_cache_hit:
  "load_from_cache lib cache key = Some vs \<Longrightarrow>
     (\<exists>payload. Cache_get (loads lib) cache key = Inr payload
        \<and> convert_payload_to_valuations (loads lib) payload = Inr vs)"
  by (auto simp: load_from_cache_def split: sum.splits if_splits)


text \<open>
  C9. A failure of the cache never leaves the orchestrator. When the read raises, or when
  the conversion of the cached payload raises, \<^verbatim>\<open>rank_properties\<close> does what it does on
  a miss: it creates the valuations. The conversion raises for a payload with an object
  that lacks one of the eight mandatory keys, or whose \<^verbatim>\<open>geo_location\<close> lacks a coordinate. When
  the searches and the valuation return, the computed list is returned whether the write
  succeeds or raises (and the cache is untouched when it raises). Every exception that
  leaves \<^verbatim>\<open>rank_properties\<close> was raised by the search or by the valuation.
\<close>

theorem cache_failures_are_misses:
  "(Cache_get (loads lib) cache (cache_key lib (to_buy params) vp) = Inl e
      \<longrightarrow> rank_properties lib finder params vp cache
          = create_valuations lib finder (cache_key lib (to_buy params) vp) (to_buy params) vp cache)
   \<and> (Cache_get (loads lib) cache (cache_key lib (to_buy params) vp) = Inr payload
        \<and> convert_payload_to_valuations (loads lib) payload = Inl e
      \<longrightarrow> rank_properties lib finder params vp cache
          = create_valuations lib finder (cache_key lib (to_buy params) vp) (to_buy params) vp cache)
   \<and> (ld s = Inr (PList objs) \<and> PDict d \<in> set objs
        \<and> k \<in> mandatory_keys
        \<and> k \<notin> fst ` set d
      \<longrightarrow> (\<exists>e'. convert_payload_to_valuations ld (PStr s) = Inl e'))
   \<and> (ld s = Inr (PList objs) \<and> PDict d \<in> set objs
        \<and> map_of d ''geo_location'' = Some (PDict g)
        \<and> (''latitude'' \<notin> fst ` set g \<or> ''longitude'' \<notin> fst ` set g)
      \<longrightarrow> (\<exists>e'. convert_payload_to_valuations ld (PStr s) = Inl e'))
   \<and> (finder (to_rent p) cache = (Inr rents, cache1)
        \<and> finder (to_buy (to_rent p)) cache1 = (Inr buys, cache2)
        \<and> get_valuation (griddata_fn lib) rents buys vp = Inr vs
      \<longrightarrow> fst (create_valuations lib finder key p vp cache) = Inr (map as_object vs)
          \<and> (set_fault cache2 = Some e
               \<longrightarrow> snd (snd (create_valuations lib finder key p vp cache)) = cache2))
   \<and> (fst (rank_properties lib finder params vp cache) = Inl e
      \<longrightarrow> (\<exists>q c c'. finder q c = (Inl e, c'))
          \<or> (\<exists>rents buys. get_valuation (griddata_fn lib) rents buys vp = Inl e))"
proof (intro conjI impI)
  assume "Cache_get (loads lib) cache (cache_key lib (to_buy params) vp) = Inl e"
  then have "load_from_cache lib cache (cache_key lib (to_buy params) vp) = None"
    by (simp add: load_from_cache_def)
  then show "rank_properties lib finder params vp cache
      = create_valuations lib finder (cache_key lib (to_buy params) vp) (to_buy params) vp cache"
    by (simp add: load_from_cache_miss)
next
  assume "Cache_get (loads lib) cache (cache_key lib (to_buy params) vp) = Inr payload
        \<and> convert_payload_to_valuations (loads lib) payload = Inl e"
  then have "load_from_cache lib cache (cache_key lib (to_buy params) vp) = None"
    by (simp add: load_from_cache_def)
  then show "rank_properties lib finder params vp cache
      = create_valuations lib finder (cache_key lib (to_buy params) vp) (to_buy params) vp cache"
    by (simp add: load_from_cache_miss)
next
  assume a: "ld s = Inr (PList objs) \<and> PDict d \<in> set objs
        \<and> k \<in> mandatory_keys
        \<and> k \<notin> fst ` set d"
  then obtain e' where "valuation_of_obj (PDict d) = Inl e'"
    using valuation_of_obj_missing_key [of k d] by blast
  with a show "\<exists>e'. convert_payload_to_valuations ld (PStr s) = Inl e'"
    using convert_payload_raises [of ld s objs "PDict d" e'] by blast
next
  assume a: "ld s = Inr (PList objs) \<and> PDict d \<in> set objs
        \<and> map_of d ''geo_location'' = Some (PDict g)
        \<and> (''latitude'' \<notin> fst ` set g \<or> ''longitude'' \<notin> fst ` set g)"
  then obtain e' where "valuation_of_obj (PDict d) = Inl e'"
    using valuation_of_obj_missing_coordinate [of d g] by blast
  with a show "\<exists>e'. convert_payload_to_valuations ld (PStr s) = Inl e'"
    using convert_payload_raises [of ld s objs "PDict d" e'] by blast
next
  assume a: "finder (to_rent p) cache = (Inr rents, cache1)
        \<and> finder (to_buy (to_rent p)) cache1 = (Inr buys, cache2)
        \<and> get_valuation (griddata_fn lib) rents buys vp = Inr vs"
  then show "fst (create_valuations lib finder key p vp cache) = Inr (map as_object vs)"
    by (simp add: create_valuations_def Let_def)
  assume "set_fault cache2 = Some e"
  with a show "snd (snd (create_valuations lib finder key p vp cache)) = cache2"
    by (simp add: create_valuations_def save_to_cache_def Cache_set_def Let_def)
next
  assume a: "fst (rank_properties lib finder params vp cache) = Inl e"
  show "(\<exists>q c c'. finder q c = (Inl e, c'))
          \<or> (\<exists>rents buys. get_valuation (griddata_fn lib) rents buys vp = Inl e)"
  proof (cases "load_from_cache lib cache (cache_key lib (to_buy params) vp)")
    case None
    with a have "fst (create_valuations lib finder (cache_key lib (to_buy params) vp)
        (to_buy params) vp cache) = Inl e"
      by (simp add: load_from_cache_miss)
    then show ?thesis by (rule create_valuations_raise)
  next
    case (Some cached)
    with a show ?thesis by (simp add: rank_properties_def Let_def)
  qed
qed


theorem cache_failures_are_misses_witness:
  "rank_properties broken_json (fixed_finder [rent_listing] [listing_1, listing_2])
       example_search small_params unreachable_cache
     = create_valuations broken_json (fixed_finder [rent_listing] [listing_1, listing_2])
         (cache_key broken_json (to_buy example_search) small_params)
         (to_buy example_search) small_params unreachable_cache
   \<and> rank_properties stale_json (fixed_finder [rent_listing] [listing_1, listing_2])
       example_search small_params full_cache
     = create_valuations stale_json (fixed_finder [rent_listing] [listing_1, listing_2])
         (cache_key stale_json (to_buy example_search) small_params)
         (to_buy example_search) small_params full_cache
   \<and> (\<exists>e'. convert_payload_to_valuations (loads stale_json) (PStr ''[]'') = Inl e')
   \<and> (\<exists>e'. convert_payload_to_valuations
          (\<lambda>s. Inr (PList [PDict [(''geo_location'', PDict [(''latitude'', PNum 1)])]]))
          (PStr ''[]'') = Inl e')
   \<and> fst (create_valuations broken_json (fixed_finder [rent_listing] [listing_1, listing_2])
          ''key'' example_search small_params unreachable_cache)
       = Inr (map as_object
           [\<lparr>property = listing_2, estimated_rental_income = 1000, return_on_investment = 12000\<rparr>,
            \<lparr>property = listing_1, estimated_rental_income = 1000, return_on_investment = - 37152\<rparr>])
   \<and> snd (snd (create_valuations broken_json (fixed_finder [rent_listing] [listing_1, listing_2])
          ''key'' example_search small_params unreachable_cache)) = unreachable_cache
   \<and> fst (rank_properties broken_json failing_finder example_search small_params unreachable_cache)
       = Inl ConnectionError
   \<and> ((\<exists>q c c'. failing_finder q c = (Inl ConnectionError, c'))
       \<or> (\<exists>rents buys. get_valuation (griddata_fn broken_json) rents buys small_params
             = Inl ConnectionError))"
proof -
  let ?F = "fixed_finder [rent_listing] [listing_1, listing_2]"
  let ?vs = "[\<lparr>property = listing_2, estimated_rental_income = 1000, return_on_investment = 12000\<rparr>,
            \<lparr>property = listing_1, estimated_rental_income = 1000, return_on_investment = - 37152\<rparr>]"
  have g1: "Cache_get (loads broken_json) unreachable_cache
      (cache_key broken_json (to_buy example_search) small_params) = Inl ConnectionError"
    by (simp add: Cache_get_def unreachable_cache_def)
  have c1: "rank_properties broken_json ?F example_search small_params unreachable_cache
     = create_valuations broken_json ?F (cache_key broken_json (to_buy example_search) small_params)
         (to_buy example_search) small_params unreachable_cache"
    using cache_failures_are_misses [where lib = broken_json and cache = unreachable_cache
        and params = example_search and vp = small_params and e = ConnectionError
        and finder = ?F, THEN conjunct1] g1
    by blast
  have g2: "Cache_get (loads stale_json) full_cache
      (cache_key stale_json (to_buy example_search) small_params)
      = Inr (PList [PDict [(''identifier'', PStr ''1'')]])"
    by (simp add: Cache_get_def full_cache_def stale_json_def)
  have v2: "convert_payload_to_valuations (loads stale_json)
      (PList [PDict [(''identifier'', PStr ''1'')]])
      = Inl (TypeError ''the JSON object must be str, bytes or bytearray'')"
    by (simp add: convert_payload_to_valuations_def json_loads_py_def)
  have c2: "rank_properties stale_json ?F example_search small_params full_cache
     = create_valuations stale_json ?F (cache_key stale_json (to_buy example_search) small_params)
         (to_buy example_search) small_params full_cache"
    using cache_failures_are_misses [where lib = stale_json and cache = full_cache
        and params = example_search and vp = small_params
        and e = "TypeError ''the JSON object must be str, bytes or bytearray''"
        and payload = "PList [PDict [(''identifier'', PStr ''1'')]]"
        and finder = ?F, THEN conjunct2, THEN conjunct1] g2 v2
    by blast
  have k3: "''price'' \<in> mandatory_keys" by (simp add: mandatory_keys_def)
  have c3: "\<exists>e'. convert_payload_to_valuations (loads stale_json) (PStr ''[]'') = Inl e'"
    using cache_failures_are_misses [where ld = "loads stale_json" and s = "''[]''"
        and objs = "[PDict [(''identifier'', PStr ''1'')]]"
        and d = "[(''identifier'', PStr ''1'')]" and k = "''price''",
        THEN conjunct2, THEN conjunct2, THEN conjunct1] k3
    by (simp add: stale_json_def)
  have c4: "\<exists>e'. convert_payload_to_valuations
          (\<lambda>s. Inr (PList [PDict [(''geo_location'', PDict [(''latitude'', PNum 1)])]]))
          (PStr ''[]'') = Inl e'"
    using cache_failures_are_misses [
        where ld = "\<lambda>s. Inr (PList [PDict [(''geo_location'', PDict [(''latitude'', PNum 1)])]])"
        and s = "''[]''"
        and objs = "[PDict [(''geo_location'', PDict [(''latitude'', PNum 1)])]]"
        and d = "[(''geo_location'', PDict [(''latitude'', PNum 1)])]"
        and g = "[(''latitude'', PNum 1)]",
        THEN conjunct2, THEN conjunct2, THEN conjunct2, THEN conjunct1]
    by simp
  have f1: "?F (to_rent example_search) unreachable_cache = (Inr [rent_listing], unreachable_cache)"
    by (simp add: fixed_finder_def to_rent_def)
  have f2: "?F (to_buy (to_rent example_search)) unreachable_cache
      = (Inr [listing_1, listing_2], unreachable_cache)"
    by (simp add: fixed_finder_def to_buy_def)
  have run: "get_valuation (griddata_fn broken_json) [rent_listing] [listing_1, listing_2]
      small_params = Inr ?vs"
    using small_run by (simp add: broken_json_def)
  have sf: "set_fault unreachable_cache = Some ConnectionError"
    by (simp add: unreachable_cache_def)
  have c5: "fst (create_valuations broken_json ?F ''key'' example_search small_params
        unreachable_cache) = Inr (map as_object ?vs)
      \<and> snd (snd (create_valuations broken_json ?F ''key'' example_search small_params
        unreachable_cache)) = unreachable_cache"
    using cache_failures_are_misses [where lib = broken_json and finder = ?F
        and p = example_search and cache = unreachable_cache and ?cache1.0 = unreachable_cache
        and ?cache2.0 = unreachable_cache and rents = "[rent_listing]"
        and buys = "[listing_1, listing_2]" and vp = small_params and vs = ?vs
        and e = ConnectionError and key = "''key''",
        THEN conjunct2, THEN conjunct2, THEN conjunct2, THEN conjunct2, THEN conjunct1]
      f1 f2 run sf
    by blast
  have r6: "fst (rank_properties broken_json failing_finder example_search small_params
      unreachable_cache) = Inl ConnectionError"
    by (simp add: rank_properties_def load_from_cache_def Cache_get_def unreachable_cache_def
        create_valuations_def failing_finder_def Let_def)
  have c6: "(\<exists>q c c'. failing_finder q c = (Inl ConnectionError, c'))
       \<or> (\<exists>rents buys. get_valuation (griddata_fn broken_json) rents buys small_params
             = Inl ConnectionError)"
    using cache_failures_are_misses [where lib = broken_json and finder = failing_finder
        and params = example_search and vp = small_params and cache = unreachable_cache
        and e = ConnectionError,
        THEN conjunct2, THEN conjunct2, THEN conjunct2, THEN conjunct2, THEN conjunct2] r6
    by blast
  show ?thesis
    using c1 c2 c3 c4 c5 r6 c6 by blast
qed


section \<open>The cache round trip\<close>

lemma PurchaseCategory_of_value:
  "PurchaseCategory_of (PStr (PurchaseCategory_value c)) = Inr c"
  by (cases c) (simp_all add: PurchaseCategory_of_def)

lemma valuation_of_obj_of_valuation:
  "valuation_of_obj (obj_of_valuation v) = Inr v"
  by (simp add: valuation_of_obj_def obj_of_valuation_def py_in_def py_getitem_def
      PurchaseCategory_of_value)

lemma valuations_of_objs_of_valuations:
  "valuations_of_objs (map obj_of_valuation vs) = Inr vs"
  by (induction vs) (simp_all add: valuation_of_obj_of_valuation)

text \<open>
  C8. Converting a list of valuations to a payload, storing it as \<^verbatim>\<open>rank_properties\<close>
  does (the payload dumped once more, with the expiry of 30 minutes) through
  \<^verbatim>\<open>Cache.set\<close>, reading it back through \<^verbatim>\<open>Cache.get\<close> and converting the
  payload to valuations gives the list again, record by record and in the same order,
  when \<^verbatim>\<open>json.loads\<close> inverts \<^verbatim>\<open>json.dumps\<close> and the cache client does not
  fail. On the objects themselves the conversion of a payload inverts the conversion to a
  payload.
\<close>

theorem cache_round_trip:
  "valuations_of_objs (map obj_of_valuation vs) = Inr vs
   \<and> ((\<forall>v. loads lib (dumps lib v) = Inr v) \<and> get_fault cache = None \<and> set_fault cache = None
      \<longrightarrow> (\<exists>cache'.
             Cache_set cache key (dumps lib (PStr (convert_valuations_to_payload (dumps lib) vs)))
                 (30 * 60) = Inr cache'
             \<and> Cache_get (loads lib) cache' key
                 = Inr (PStr (convert_valuations_to_payload (dumps lib) vs)))
          \<and> convert_payload_to_valuations (loads lib)
                (PStr (convert_valuations_to_payload (dumps lib) vs)) = Inr vs
          \<and> load_from_cache lib (save_to_cache lib cache key vs) key = Some vs)"
proof (intro conjI impI)
  show "valuations_of_objs (map obj_of_valuation vs) = Inr vs"
    by (rule valuations_of_objs_of_valuations)
next
  assume a: "(\<forall>v. loads lib (dumps lib v) = Inr v) \<and> get_fault cache = None \<and> set_fault cache = None"
  define payload where "payload = convert_valuations_to_payload (dumps lib) vs"
  define cache' where "cache' = cache\<lparr>store := (store cache)(key \<mapsto> (dumps lib (PStr payload), 30 * 60))\<rparr>"
  have s: "Cache_set cache key (dumps lib (PStr payload)) (30 * 60) = Inr cache'"
    using a by (simp add: Cache_set_def cache'_def)
  have g: "Cache_get (loads lib) cache' key = Inr (PStr payload)"
    using a by (simp add: Cache_get_def cache'_def)
  have c: "convert_payload_to_valuations (loads lib) (PStr payload) = Inr vs"
    using a by (simp add: convert_payload_to_valuations_def json_loads_py_def payload_def
        convert_valuations_to_payload_def valuations_of_objs_of_valuations)
  show "\<exists>cache'.
             Cache_set cache key (dumps lib (PStr (convert_valuations_to_payload (dumps lib) vs)))
                 (30 * 60) = Inr cache'
             \<and> Cache_get (loads lib) cache' key
                 = Inr (PStr (convert_valuations_to_payload (dumps lib) vs))"
    using s g unfolding payload_def by blast
  show "convert_payload_to_valuations (loads lib)
                (PStr (convert_valuations_to_payload (dumps lib) vs)) = Inr vs"
    using c unfolding payload_def .
  have "save_to_cache lib cache key vs = cache'"
    using s by (simp add: save_to_cache_def payload_def Let_def)
  then show "load_from_cache lib (save_to_cache lib cache key vs) key = Some vs"
    using g c by (simp add: load_from_cache_def)
qed

theorem cache_round_trip_witness:
  "load_from_cache unary_json
      (save_to_cache unary_json empty_cache ''key''
         (map as_object [valuation_A, valuation_C, valuation_B])) ''key''
     = Some (map as_object [valuation_A, valuation_C, valuation_B])
   \<and> convert_payload_to_valuations (loads unary_json)
       (PStr (convert_valuations_to_payload (dumps unary_json)
          (map as_object [valuation_A, valuation_C, valuation_B])))
     = Inr (map as_object [valuation_A, valuation_C, valuation_B])"
  using cache_round_trip [where lib = unary_json and cache = empty_cache and key = "''key''"
      and vs = "map as_object [valuation_A, valuation_C, valuation_B]"]
  by (simp add: unary_json_def empty_cache_def)


text \<open>
  \<^verbatim>\<open>Cache.get\<close> loads the stored text once and the converter loads its argument
  again, so the payload has to be dumped twice, as \<^verbatim>\<open>rank_properties\<close> does. A payload
  stored as the converter returns it comes back as a list, and the converter raises.
\<close>

lemma payload_stored_once_is_not_read:
  assumes "\<forall>v. loads lib (dumps lib v) = Inr v" "get_fault cache = None"
    and "Cache_set cache key (convert_valuations_to_payload (dumps lib) vs) ttl = Inr cache'"
  shows "Cache_get (loads lib) cache' key = Inr (PList (map obj_of_valuation vs))"
    and "convert_payload_to_valuations (loads lib) (PList (map obj_of_valuation vs))
      = Inl (TypeError ''the JSON object must be str, bytes or bytearray'')"
proof -
  from assms(3) have c: "cache' = cache\<lparr>store := (store cache)(key \<mapsto>
      (convert_valuations_to_payload (dumps lib) vs, ttl))\<rparr>"
    by (auto simp: Cache_set_def split: option.splits)
  show "Cache_get (loads lib) cache' key = Inr (PList (map obj_of_valuation vs))"
    using assms(1,2) by (simp add: c Cache_get_def convert_valuations_to_payload_def)
  show "convert_payload_to_valuations (loads lib) (PList (map obj_of_valuation vs))
      = Inl (TypeError ''the JSON object must be str, bytes or bytearray'')"
    by (simp add: convert_payload_to_valuations_def json_loads_py_def)
qed


section \<open>The rent estimate on degenerate samples\<close>

text \<open>
  What the two guards of \<^verbatim>\<open>get_height\<close> do give: it returns whenever the
  interpolation returns or raises \<^verbatim>\<open>ValueError\<close>, with the mean price for NaN and
  for \<^verbatim>\<open>ValueError\<close>; any other exception passes through.
\<close>

lemma get_height_returns:
  assumes "\<And>e. gd (points self) (values_of self) (x, y) = Inl e \<Longrightarrow> isValueError e"
  shows "\<exists>h. get_height gd self x y = Inr h"
  using assms by (auto simp: get_height_def split: sum.splits grid_value.splits)

lemma get_height_fallback:
  assumes "gd (points self) (values_of self) (x, y) = Inr NaN
      \<or> (\<exists>m. gd (points self) (values_of self) (x, y) = Inl (ValueError m))"
  shows "get_height gd self x y = Inr (average_price self)"
  using assms by (auto simp: get_height_def)

lemma get_height_propagates:
  assumes "gd (points self) (values_of self) (x, y) = Inl e" "\<not> isValueError e"
  shows "get_height gd self x y = Inl e"
  using assms by (simp add: get_height_def)

lemma remove_outliers_one: "remove_outliers_default [p] = [p]"
  by (simp add: remove_outliers_default_def remove_outliers_def percentile_def Let_def)

lemma fit_one:
  "fit [r] = Inr \<lparr>points = replicate 5 (longitude (geo_location r), latitude (geo_location r)),
     values_of = replicate 5 (price r), average_price = price r\<rparr>"
  by (simp add: fit_def py_min_def py_max_def Let_def numeral_eq_Suc)

lemma collinear_replicate: "collinear (replicate n p)"
  by (simp add: collinear_def list_all_iff)

lemma valuation_loop_abort:
  assumes "get_height gd self (longitude (geo_location b)) (latitude (geo_location b)) = Inl e"
  shows "valuation_loop gd self vp (b # bs) acc = Inl e"
  using assms get_height_not_ValueError [OF assms] by (simp add: make_valuation_def)

text \<open>
  C5. With exactly one rental listing the five sample points coincide, the triangulation
  raises \<^verbatim>\<open>QhullError\<close>, and \<^verbatim>\<open>get_height\<close>, which catches \<^verbatim>\<open>ValueError\<close>
  only, raises it at every query coordinate instead of returning the price of the
  listing; the exception leaves the loop and the compute path.
\<close>

theorem single_sample_estimate_raises:
  "fit [r] = Inr \<lparr>points = replicate 5 (longitude (geo_location r), latitude (geo_location r)),
       values_of = replicate 5 (price r), average_price = price r\<rparr>
   \<and> get_height (qhull_griddata interpolate)
        \<lparr>points = replicate 5 (longitude (geo_location r), latitude (geo_location r)),
         values_of = replicate 5 (price r), average_price = price r\<rparr> x y = Inl QhullError
   \<and> get_valuation (qhull_griddata interpolate) [r] (b # bs) vp = Inl QhullError"
proof -
  let ?self = "\<lparr>points = replicate 5 (longitude (geo_location r), latitude (geo_location r)),
       values_of = replicate 5 (price r), average_price = price r\<rparr>"
  have h: "get_height (qhull_griddata interpolate) ?self x y = Inl QhullError" for x y
    by (simp add: get_height_def qhull_griddata_def collinear_replicate)
  have "valuation_loop (qhull_griddata interpolate) ?self vp (b # bs) [] = Inl QhullError"
    by (rule valuation_loop_abort) (rule h)
  then have "get_valuation (qhull_griddata interpolate) [r] (b # bs) vp = Inl QhullError"
    by (simp add: get_valuation_def remove_outliers_one fit_one)
  with h fit_one show ?thesis by blast
qed

lemma floor_quarters: "\<lfloor>1 / 4 :: rat\<rfloor> = 0" "\<lfloor>3 / 4 :: rat\<rfloor> = 0"
  by (simp_all add: floor_unique)

lemma remove_outliers_two: "remove_outliers_default [1000, 1200] = [1000, 1200]"
  by (simp add: remove_outliers_default_def remove_outliers_def percentile_def Let_def
      floor_quarters)

lemma fit_two:
  "fit [rent_listing, rent_listing_east] =
     Inr \<lparr>points = [(0, 51), (1, 51), (0, 51), (1, 51), (0, 51), (1, 51)],
          values_of = [1000, 1200, 1100, 1100, 1100, 1100], average_price = 1100\<rparr>"
  by (simp add: fit_def py_min_def py_max_def rent_listing_def rent_listing_east_def Let_def)

lemma collinear_two: "collinear [(0, 51), (1, 51), (0, 51), (1, 51), (0, 51), (1, 51)]"
  by (simp add: collinear_def)

text \<open>
  C2. The estimate is not total: an exception of the interpolation that is not a
  \<^verbatim>\<open>ValueError\<close> leaves \<^verbatim>\<open>get_height\<close>. For an engine whose sample points lie
  on one line the triangulation raises \<^verbatim>\<open>QhullError\<close> and \<^verbatim>\<open>get_height\<close> raises
  it too, as for two rental listings on one latitude, whose bounding box is a segment; the
  exception leaves the loop and the compute path.
\<close>

theorem collinear_samples_estimate_raises:
  "(gd (points self) (values_of self) (x, y) = Inl e \<and> \<not> isValueError e
      \<longrightarrow> get_height gd self x y = Inl e)
   \<and> (collinear (points self) \<longrightarrow> get_height (qhull_griddata interpolate) self x y = Inl QhullError)
   \<and> fit [rent_listing, rent_listing_east] =
       Inr \<lparr>points = [(0, 51), (1, 51), (0, 51), (1, 51), (0, 51), (1, 51)],
            values_of = [1000, 1200, 1100, 1100, 1100, 1100], average_price = 1100\<rparr>
   \<and> get_valuation (qhull_griddata interpolate) [rent_listing, rent_listing_east] (b # bs) vp
       = Inl QhullError"
proof (intro conjI impI)
  assume "gd (points self) (values_of self) (x, y) = Inl e \<and> \<not> isValueError e"
  then show "get_height gd self x y = Inl e"
    by (simp add: get_height_propagates)
next
  assume "collinear (points self)"
  then show "get_height (qhull_griddata interpolate) self x y = Inl QhullError"
    by (simp add: get_height_def qhull_griddata_def)
next
  show "fit [rent_listing, rent_listing_east] =
       Inr \<lparr>points = [(0, 51), (1, 51), (0, 51), (1, 51), (0, 51), (1, 51)],
            values_of = [1000, 1200, 1100, 1100, 1100, 1100], average_price = 1100\<rparr>"
    by (rule fit_two)
next
  let ?self = "\<lparr>points = [(0, 51), (1, 51), (0, 51), (1, 51), (0, 51), (1, 51)],
            values_of = [1000, 1200, 1100, 1100, 1100, 1100], average_price = 1100\<rparr>"
  have h: "get_height (qhull_griddata interpolate) ?self x y = Inl QhullError" for x y
    by (simp add: get_height_def qhull_griddata_def collinear_two)
  have l: "valuation_loop (qhull_griddata interpolate) ?self vp (b # bs) [] = Inl QhullError"
    by (rule valuation_loop_abort) (rule h)
  have p: "map price [rent_listing, rent_listing_east] = [1000, 1200]"
    by (simp add: rent_listing_def rent_listing_east_def)
  have f: "[p \<leftarrow> [rent_listing, rent_listing_east]. price p \<in> set [1000, 1200]]
      = [rent_listing, rent_listing_east]"
    by (simp add: rent_listing_def rent_listing_east_def)
  show "get_valuation (qhull_griddata interpolate) [rent_listing, rent_listing_east] (b # bs) vp
       = Inl QhullError"
    unfolding get_valuation_def Let_def p remove_outliers_two f fit_two
    using l by simp
qed


theorem single_sample_estimate_raises_witness:
  "get_height (qhull_griddata (constant_grid 1000))
       \<lparr>points = replicate 5 (longitude (geo_location rent_listing),
                               latitude (geo_location rent_listing)),
        values_of = replicate 5 (price rent_listing), average_price = price rent_listing\<rparr>
       0 51 = Inl QhullError
   \<and> get_valuation (qhull_griddata (constant_grid 1000)) [rent_listing] [listing_1, listing_2]
       small_params = Inl QhullError"
  using single_sample_estimate_raises [of rent_listing "constant_grid 1000" 0 51
      listing_1 "[listing_2]" small_params]
  by blast

theorem collinear_samples_estimate_raises_witness:
  "qhull_griddata (constant_grid 1000) [(0, 51), (1, 51), (0, 51), (1, 51), (0, 51), (1, 51)]
       [1000, 1200, 1100, 1100, 1100, 1100] (1 / 2, 51) = Inl QhullError
   \<and> collinear [(0, 51), (1, 51), (0, 51), (1, 51), (0, 51), (1, 51)]
   \<and> get_height (qhull_griddata (constant_grid 1000))
       \<lparr>points = [(0, 51), (1, 51), (0, 51), (1, 51), (0, 51), (1, 51)],
        values_of = [1000, 1200, 1100, 1100, 1100, 1100], average_price = 1100\<rparr>
       (1 / 2) 51 = Inl QhullError
   \<and> get_valuation (qhull_griddata (constant_grid 1000)) [rent_listing, rent_listing_east]
       [listing_1, listing_2] small_params = Inl QhullError"
proof -
  let ?self = "\<lparr>points = [(0, 51), (1, 51), (0, 51), (1, 51), (0, 51), (1, 51)],
        values_of = [1000, 1200, 1100, 1100, 1100, 1100], average_price = 1100\<rparr>"
  note t = collinear_samples_estimate_raises [where self = ?self
      and gd = "qhull_griddata (constant_grid 1000)" and e = QhullError
      and interpolate = "constant_grid 1000" and x = "1 / 2" and y = 51 and b = listing_1
      and bs = "[listing_2]" and vp = small_params]
  have g: "qhull_griddata (constant_grid 1000) (points ?self) (values_of ?self) (1 / 2, 51)
      = Inl QhullError"
    by (simp add: qhull_griddata_def collinear_two)
  have h: "get_height (qhull_griddata (constant_grid 1000)) ?self (1 / 2) 51 = Inl QhullError"
    using t [THEN conjunct1] g by simp
  have h': "get_height (qhull_griddata (constant_grid 1000)) ?self (1 / 2) 51 = Inl QhullError"
    using t [THEN conjunct2, THEN conjunct1] collinear_two by simp
  have v: "get_valuation (qhull_griddata (constant_grid 1000)) [rent_listing, rent_listing_east]
       [listing_1, listing_2] small_params = Inl QhullError"
    using t [THEN conjunct2, THEN conjunct2, THEN conjunct2] by simp
  show ?thesis
    using g h h' v collinear_two by simp
qed

end
